theory Spec2Isabelle
  imports Complex_Main "HOL-Library.Sublist"
begin

section \<open>Data model of \<^verbatim>\<open>prob_data_link.py\<close>\<close>

text \<open>
  A spreadsheet cell as pandas holds it after \<^verbatim>\<open>read_excel\<close>: text, a number, a
  timestamp (nanoseconds since the epoch, as \<^verbatim>\<open>datetime64[ns]\<close>), or the null value
  (NaN / NaT / None). Similarity scores are floats in the script; they are modelled as reals.
\<close>

datatype cell = Str string | Num real | Date int | NA

text \<open>
  A DataFrame with the default \<^verbatim>\<open>RangeIndex\<close>: the index is \<open>0..<nrows\<close>, the
  data is a list of named columns in header order.
\<close>

record dataframe =
  nrows :: nat
  cols :: "(string \<times> cell list) list"

datatype error = LoadError | KeyError string | TypeError

definition columns :: "dataframe \<Rightarrow> string list" where
  "columns d = map fst (cols d)"

text \<open>Every column of a DataFrame is as long as its index, and \<^verbatim>\<open>read_excel\<close>
  makes the header names distinct.\<close>

definition wf_frame :: "dataframe \<Rightarrow> bool" where
  "wf_frame d \<longleftrightarrow> distinct (columns d) \<and> list_all (\<lambda>(c, vs). length vs = nrows d) (cols d)"

text \<open>A value the string comparison accepts: text or the null value.\<close>

definition text_or_null :: "cell \<Rightarrow> bool" where
  "text_or_null v = (case v of Str s \<Rightarrow> True | NA \<Rightarrow> True | _ \<Rightarrow> False)"

subsection \<open>Errors as values\<close>

fun bind :: "error + 'a \<Rightarrow> ('a \<Rightarrow> error + 'b) \<Rightarrow> error + 'b" where
  "bind (Inl e) f = Inl e"
| "bind (Inr x) f = f x"

fun mapE :: "('a \<Rightarrow> error + 'b) \<Rightarrow> 'a list \<Rightarrow> error + 'b list" where
  "mapE f [] = Inr []"
| "mapE f (x # xs) = bind (f x) (\<lambda>y. bind (mapE f xs) (\<lambda>ys. Inr (y # ys)))"

subsection \<open>Load and preprocess (lines 5-11)\<close>

text \<open>
  \<^verbatim>\<open>pd.read_excel(path)\<close>: the file system is outside the model, so a file is given by
  what the reader makes of it: \<open>None\<close> when the file cannot be located or decoded (the call
  raises), \<open>Some d\<close> when it decodes to the frame \<open>d\<close>.
\<close>

definition read_excel :: "dataframe option \<Rightarrow> error + dataframe" where
  "read_excel file = (case file of None \<Rightarrow> Inl LoadError | Some d \<Rightarrow> Inr d)"

text \<open>
  \<^verbatim>\<open>pd.to_datetime(v, errors='coerce')\<close> on one value. The date parser of the library is
  the parameter \<open>parse\<close> (\<open>None\<close>: the value cannot be parsed); with
  \<^verbatim>\<open>errors='coerce'\<close> such a value becomes NaT instead of raising.
\<close>

definition to_datetime :: "(cell \<Rightarrow> int option) \<Rightarrow> cell \<Rightarrow> cell" where
  "to_datetime parse v =
     (case v of
        NA \<Rightarrow> NA
      | Date t \<Rightarrow> Date t
      | _ \<Rightarrow> (case parse v of Some t \<Rightarrow> Date t | None \<Rightarrow> NA))"

text \<open>\<^verbatim>\<open>d[c] = new\<close> for a column that exists: the column keeps its place.\<close>

definition setitem :: "dataframe \<Rightarrow> string \<Rightarrow> (cell list \<Rightarrow> cell list) \<Rightarrow> dataframe" where
  "setitem d c f = d\<lparr>cols := map (\<lambda>(k, vs). if k = c then (k, f vs) else (k, vs)) (cols d)\<rparr>"

text \<open>The body of the loop at lines 9-11.\<close>

definition preprocess :: "(cell \<Rightarrow> int option) \<Rightarrow> dataframe \<Rightarrow> dataframe" where
  "preprocess parse d =
     (if ''birthdate'' \<in> set (columns d)
      then setitem d ''birthdate'' (map (to_datetime parse))
      else d)"

subsection \<open>Index (lines 14-16)\<close>

text \<open>
  \<^verbatim>\<open>indexer.full()\<close> followed by \<^verbatim>\<open>indexer.index(df1, df2)\<close>: the product of the two
  indexes, as \<^verbatim>\<open>MultiIndex.from_product\<close> builds it (the first level varies slowest).
\<close>

definition full_index :: "dataframe \<Rightarrow> dataframe \<Rightarrow> (nat \<times> nat) list" where
  "full_index df1 df2 =
     concat (map (\<lambda>i. map (\<lambda>j. (i, j)) [0..<nrows df2]) [0..<nrows df1])"

subsection \<open>Compare (lines 19-25)\<close>

text \<open>\<^verbatim>\<open>d[c]\<close>: the column named \<open>c\<close>, KeyError when the frame has none.\<close>

definition getitem :: "dataframe \<Rightarrow> string \<Rightarrow> error + cell list" where
  "getitem d c = (case map_of (cols d) c of None \<Rightarrow> Inl (KeyError c) | Some vs \<Rightarrow> Inr vs)"

text \<open>The value of a column at an index label; a label outside the index raises.\<close>

definition loc :: "cell list \<Rightarrow> nat \<Rightarrow> error + cell" where
  "loc vs i = (if i < length vs then Inr (vs ! i) else Inl (KeyError ''index''))"

text \<open>
  The string comparison of one pair under \<^verbatim>\<open>method='jarowinkler'\<close>. The similarity
  function itself belongs to the string-metric library and is the parameter \<open>jw\<close>. The
  wrapper calls it on the two values; when the call raises (a value is not text) the
  result is NaN if either value is null, and the error is raised again otherwise.
\<close>

definition jarowinkler_similarity ::
  "(string \<Rightarrow> string \<Rightarrow> real) \<Rightarrow> cell \<Rightarrow> cell \<Rightarrow> error + real option" where
  "jarowinkler_similarity jw x y =
     (case (x, y) of
        (Str s, Str t) \<Rightarrow> Inr (Some (jw s t))
      | _ \<Rightarrow> if x = NA \<or> y = NA then Inr None else Inl TypeError)"

definition fillna :: "real option \<Rightarrow> real \<Rightarrow> real" where
  "fillna c v = (case c of None \<Rightarrow> v | Some r \<Rightarrow> r)"

text \<open>\<^verbatim>\<open>compare.string(..., method='jarowinkler')\<close> with the defaults: no threshold,
  \<^verbatim>\<open>missing_value=0.0\<close>.\<close>

definition compare_string :: "(string \<Rightarrow> string \<Rightarrow> real) \<Rightarrow> cell \<Rightarrow> cell \<Rightarrow> error + real" where
  "compare_string jw x y = bind (jarowinkler_similarity jw x y) (\<lambda>c. Inr (fillna c 0))"

text \<open>\<^verbatim>\<open>compare.exact\<close> with the defaults: 1 where the two values compare equal, 0
  elsewhere; a null equals nothing, itself included.\<close>

definition compare_exact :: "cell \<Rightarrow> cell \<Rightarrow> real" where
  "compare_exact x y = (if x = y \<and> x \<noteq> NA then 1 else 0)"

text \<open>One row of \<^verbatim>\<open>features\<close>: the index entry (the candidate pair) and the four
  labelled scores, in the order the comparisons were declared.\<close>

record features =
  level_0 :: nat
  level_1 :: nat
  prob_first_name :: real
  prob_last_name :: real
  prob_birthdate :: real
  prob_city :: real

definition string_feature ::
  "(string \<Rightarrow> string \<Rightarrow> real) \<Rightarrow> cell list \<Rightarrow> cell list \<Rightarrow> nat \<times> nat \<Rightarrow> error + real" where
  "string_feature jw a b p =
     bind (loc a (fst p)) (\<lambda>x. bind (loc b (snd p)) (\<lambda>y. compare_string jw x y))"

definition exact_feature :: "cell list \<Rightarrow> cell list \<Rightarrow> nat \<times> nat \<Rightarrow> error + real" where
  "exact_feature a b p =
     bind (loc a (fst p)) (\<lambda>x. bind (loc b (snd p)) (\<lambda>y. Inr (compare_exact x y)))"

text \<open>
  \<^verbatim>\<open>compare.compute(candidate_links, df1, df2)\<close>: the compared columns are taken from
  both frames first (a frame without one of them raises KeyError, whatever the pairs
  are), then every pair gets its four scores.
\<close>

record compared =
  first_name :: "cell list"
  last_name :: "cell list"
  birthdate :: "cell list"
  city :: "cell list"

definition select_compared :: "dataframe \<Rightarrow> error + compared" where
  "select_compared d =
     bind (getitem d ''first_name'') (\<lambda>c1.
     bind (getitem d ''last_name'') (\<lambda>c2.
     bind (getitem d ''birthdate'') (\<lambda>c3.
     bind (getitem d ''city'') (\<lambda>c4.
       Inr \<lparr>first_name = c1, last_name = c2, birthdate = c3, city = c4\<rparr>))))"

definition pair_features ::
  "(string \<Rightarrow> string \<Rightarrow> real) \<Rightarrow> compared \<Rightarrow> compared \<Rightarrow> nat \<times> nat \<Rightarrow> error + features" where
  "pair_features jw a b p =
     bind (string_feature jw (first_name a) (first_name b) p) (\<lambda>c1.
     bind (string_feature jw (last_name a) (last_name b) p) (\<lambda>c2.
     bind (exact_feature (birthdate a) (birthdate b) p) (\<lambda>c3.
     bind (string_feature jw (city a) (city b) p) (\<lambda>c4.
       Inr \<lparr>level_0 = fst p, level_1 = snd p,
            prob_first_name = c1, prob_last_name = c2,
            prob_birthdate = c3, prob_city = c4\<rparr>))))"

definition compute ::
  "(string \<Rightarrow> string \<Rightarrow> real) \<Rightarrow> (nat \<times> nat) list \<Rightarrow> dataframe \<Rightarrow> dataframe
     \<Rightarrow> error + features list" where
  "compute jw links df1 df2 =
     bind (select_compared df1) (\<lambda>a.
     bind (select_compared df2) (\<lambda>b.
       mapE (pair_features jw a b) links))"

subsection \<open>Match score and merge (lines 28-44)\<close>

text \<open>\<^verbatim>\<open>features.sum(axis=1)\<close>: the sum over the columns of one row.\<close>

definition sum_axis1 :: "features \<Rightarrow> real" where
  "sum_axis1 f = sum_list [prob_first_name f, prob_last_name f, prob_birthdate f, prob_city f]"

text \<open>A table of mixed values: a header and the rows under it. This is what
  \<^verbatim>\<open>to_csv(..., index=False)\<close> writes.\<close>

datatype val = IntV nat | FloatV real | CellV cell

record table =
  tcols :: "string list"
  trows :: "val list list"

text \<open>
  \<^verbatim>\<open>features['match_score'] = features.sum(axis=1)\<close>: every row gets its sum as a
  new last column.
\<close>

definition add_match_score :: "features list \<Rightarrow> (features \<times> real) list" where
  "add_match_score fs = map (\<lambda>f. (f, sum_axis1 f)) fs"

text \<open>
  \<^verbatim>\<open>features.reset_index()\<close>: the two unnamed index levels become the first columns
  \<^verbatim>\<open>level_0\<close>, \<^verbatim>\<open>level_1\<close>; the score columns follow in their order.
\<close>

definition reset_index :: "(features \<times> real) list \<Rightarrow> table" where
  "reset_index fs =
     \<lparr>tcols = [''level_0'', ''level_1'', ''prob_first_name'', ''prob_last_name'',
               ''prob_birthdate'', ''prob_city'', ''match_score''],
      trows = map (\<lambda>(f, match_score).
                     [IntV (level_0 f), IntV (level_1 f), FloatV (prob_first_name f),
                      FloatV (prob_last_name f), FloatV (prob_birthdate f),
                      FloatV (prob_city f), FloatV match_score]) fs\<rparr>"

definition add_prefix :: "string \<Rightarrow> dataframe \<Rightarrow> dataframe" where
  "add_prefix p d = d\<lparr>cols := map (\<lambda>(c, vs). (p @ c, vs)) (cols d)\<rparr>"

text \<open>The value of a row under a column name.\<close>

definition tget :: "table \<Rightarrow> val list \<Rightarrow> string \<Rightarrow> val option" where
  "tget t r c = map_of (zip (tcols t) r) c"

text \<open>The row of the right frame a left join attaches to a key: the row at that index
  label, nulls when the index has no such label.\<close>

definition right_row :: "dataframe \<Rightarrow> val option \<Rightarrow> val list" where
  "right_row d k =
     (case k of
        Some (IntV i) \<Rightarrow>
          if i < nrows d then map (\<lambda>(c, vs). CellV (vs ! i)) (cols d)
          else map (\<lambda>_. CellV NA) (cols d)
      | _ \<Rightarrow> map (\<lambda>_. CellV NA) (cols d))"

text \<open>\<^verbatim>\<open>left.merge(right, left_on=c, right_index=True, how='left')\<close>: one row per
  left row, in the left order, the right columns after the left ones.\<close>

definition merge :: "table \<Rightarrow> dataframe \<Rightarrow> string \<Rightarrow> error + table" where
  "merge left right left_on =
     (if left_on \<in> set (tcols left)
      then Inr \<lparr>tcols = tcols left @ columns right,
                trows = map (\<lambda>r. r @ right_row right (tget left r left_on)) (trows left)\<rparr>
      else Inl (KeyError left_on))"

definition drop_columns :: "table \<Rightarrow> string list \<Rightarrow> error + table" where
  "drop_columns t names =
     (case find (\<lambda>c. c \<notin> set (tcols t)) names of
        Some c \<Rightarrow> Inl (KeyError c)
      | None \<Rightarrow>
          Inr \<lparr>tcols = filter (\<lambda>c. c \<notin> set names) (tcols t),
               trows = map (\<lambda>r. map snd (filter (\<lambda>cv. fst cv \<notin> set names) (zip (tcols t) r)))
                         (trows t)\<rparr>)"

subsection \<open>Outputs (lines 47-52)\<close>

text \<open>\<^verbatim>\<open>t[t[c] > x]\<close>: the rows whose value under \<open>c\<close> is greater than \<open>x\<close>, in
  their order.\<close>

definition gt_val :: "val option \<Rightarrow> real \<Rightarrow> bool" where
  "gt_val v x = (case v of Some (FloatV s) \<Rightarrow> s > x | Some (IntV n) \<Rightarrow> real n > x | _ \<Rightarrow> False)"

definition select_gt :: "table \<Rightarrow> string \<Rightarrow> real \<Rightarrow> error + table" where
  "select_gt t c x =
     (if c \<in> set (tcols t)
      then Inr (t\<lparr>trows := filter (\<lambda>r. gt_val (tget t r c) x) (trows t)\<rparr>)
      else Inl (KeyError c))"

text \<open>The two files the script writes.\<close>

record outputs =
  all_possible_combos_with_fields :: table
  linked_records_with_fields :: table

text \<open>The script, top to bottom. The inputs are the two spreadsheet files (see
  \<open>read_excel\<close>), the string metric and the date parser.\<close>

definition pipeline ::
  "(string \<Rightarrow> string \<Rightarrow> real) \<Rightarrow> (cell \<Rightarrow> int option)
     \<Rightarrow> dataframe option \<Rightarrow> dataframe option \<Rightarrow> error + outputs" where
  "pipeline jw parse file1 file2 =
     bind (read_excel file1) (\<lambda>d1.
     bind (read_excel file2) (\<lambda>d2.
       let df1 = preprocess parse d1;
           df2 = preprocess parse d2;
           candidate_links = full_index df1 df2
       in
     bind (compute jw candidate_links df1 df2) (\<lambda>features.
       let features = add_match_score features;
           pairs = reset_index features;
           df1_prefixed = add_prefix ''df1_'' df1;
           df2_prefixed = add_prefix ''df2_'' df2
       in
     bind (merge pairs df1_prefixed ''level_0'') (\<lambda>m.
     bind (merge m df2_prefixed ''level_1'') (\<lambda>m.
     bind (drop_columns m [''level_0'', ''level_1'']) (\<lambda>merged.
     bind (select_gt merged ''match_score'' 3) (\<lambda>matches.
       Inr \<lparr>all_possible_combos_with_fields = merged,
            linked_records_with_fields = matches\<rparr>)))))))"

subsection \<open>Derived notions used in the statements\<close>

text \<open>The three compared string columns hold only text or nulls.\<close>

definition string_columns_are_text :: "dataframe \<Rightarrow> bool" where
  "string_columns_are_text d \<longleftrightarrow>
     (\<forall>c \<in> {''first_name'', ''last_name'', ''city''}.
        \<forall>vs. getitem d c = Inr vs \<longrightarrow> list_all text_or_null vs)"

text \<open>The five score columns of the two outputs, and the row that one scored pair
  contributes to them.\<close>

definition score_columns :: "string list" where
  "score_columns = [''prob_first_name'', ''prob_last_name'', ''prob_birthdate'', ''prob_city'',
                    ''match_score'']"

definition linked_row :: "dataframe \<Rightarrow> dataframe \<Rightarrow> features \<Rightarrow> val list" where
  "linked_row df1 df2 f =
     [FloatV (prob_first_name f), FloatV (prob_last_name f), FloatV (prob_birthdate f),
      FloatV (prob_city f), FloatV (sum_axis1 f)]
     @ right_row df1 (Some (IntV (level_0 f))) @ right_row df2 (Some (IntV (level_1 f)))"

definition merged_table :: "dataframe \<Rightarrow> dataframe \<Rightarrow> features list \<Rightarrow> table" where
  "merged_table df1 df2 fs =
     \<lparr>tcols = score_columns @ map ((@) ''df1_'') (columns df1) @ map ((@) ''df2_'') (columns df2),
      trows = map (linked_row df1 df2) fs\<rparr>"

subsection \<open>A concrete run\<close>

text \<open>
  Two small spreadsheets, a date parser that knows one date, and a stand-in string
  metric (the share of the longer string that the common prefix covers, 0 when either
  string is empty), on which the script is evaluated further below.
\<close>

fun common_prefix :: "string \<Rightarrow> string \<Rightarrow> nat" where
  "common_prefix (x # xs) (y # ys) = (if x = y then Suc (common_prefix xs ys) else 0)"
| "common_prefix _ _ = 0"

definition prefix_similarity :: "string \<Rightarrow> string \<Rightarrow> real" where
  "prefix_similarity s t =
     (if s = [] \<or> t = [] then 0
      else real (common_prefix s t) / real (max (length s) (length t)))"

definition example_parse :: "cell \<Rightarrow> int option" where
  "example_parse v = (if v = Str ''1990-01-01'' then Some 631152000 else None)"

definition example_df1 :: dataframe where
  "example_df1 =
     \<lparr>nrows = 2,
      cols = [(''employee_id'', [Num 7, Num 8]),
              (''first_name'', [Str ''Jon'', NA]),
              (''last_name'', [Str ''Smith'', Str ''Smith'']),
              (''birthdate'', [Str ''1990-01-01'', Str ''1990-01-01'']),
              (''city'', [Str ''Reno'', Str ''Reno''])]\<rparr>"

definition example_df2 :: dataframe where
  "example_df2 =
     \<lparr>nrows = 2,
      cols = [(''first_name'', [Str ''John'', Str ''Ann'']),
              (''last_name'', [Str ''Smith'', Str ''Lee'']),
              (''birthdate'', [Date 631152000, Str ''n/a'']),
              (''city'', [Str ''Reno'', Str ''Oslo''])]\<rparr>"

definition example_columns :: "string list" where
  "example_columns =
     [''prob_first_name'', ''prob_last_name'', ''prob_birthdate'', ''prob_city'', ''match_score'',
      ''df1_employee_id'', ''df1_first_name'', ''df1_last_name'', ''df1_birthdate'', ''df1_city'',
      ''df2_first_name'', ''df2_last_name'', ''df2_birthdate'', ''df2_city'']"

definition example_out :: outputs where
  "example_out =
     \<lparr>all_possible_combos_with_fields =
        \<lparr>tcols = example_columns,
         trows =
           [[FloatV (1/2), FloatV 1, FloatV 1, FloatV 1, FloatV (7/2),
             CellV (Num 7), CellV (Str ''Jon''), CellV (Str ''Smith''), CellV (Date 631152000),
             CellV (Str ''Reno''),
             CellV (Str ''John''), CellV (Str ''Smith''), CellV (Date 631152000),
             CellV (Str ''Reno'')],
            [FloatV 0, FloatV 0, FloatV 0, FloatV 0, FloatV 0,
             CellV (Num 7), CellV (Str ''Jon''), CellV (Str ''Smith''), CellV (Date 631152000),
             CellV (Str ''Reno''),
             CellV (Str ''Ann''), CellV (Str ''Lee''), CellV NA, CellV (Str ''Oslo'')],
            [FloatV 0, FloatV 1, FloatV 1, FloatV 1, FloatV 3,
             CellV (Num 8), CellV NA, CellV (Str ''Smith''), CellV (Date 631152000),
             CellV (Str ''Reno''),
             CellV (Str ''John''), CellV (Str ''Smith''), CellV (Date 631152000),
             CellV (Str ''Reno'')],
            [FloatV 0, FloatV 0, FloatV 0, FloatV 0, FloatV 0,
             CellV (Num 8), CellV NA, CellV (Str ''Smith''), CellV (Date 631152000),
             CellV (Str ''Reno''),
             CellV (Str ''Ann''), CellV (Str ''Lee''), CellV NA, CellV (Str ''Oslo'')]]\<rparr>,
      linked_records_with_fields =
        \<lparr>tcols = example_columns,
         trows =
           [[FloatV (1/2), FloatV 1, FloatV 1, FloatV 1, FloatV (7/2),
             CellV (Num 7), CellV (Str ''Jon''), CellV (Str ''Smith''), CellV (Date 631152000),
             CellV (Str ''Reno''),
             CellV (Str ''John''), CellV (Str ''Smith''), CellV (Date 631152000),
             CellV (Str ''Reno'')]]\<rparr>\<rparr>"

text \<open>A sheet that has the compared columns in its header and no rows.\<close>

definition example_empty :: dataframe where
  "example_empty =
     \<lparr>nrows = 0,
      cols = [(''first_name'', []), (''last_name'', []), (''birthdate'', []), (''city'', [])]\<rparr>"

subsection \<open>The Jaro-Winkler metric\<close>











section \<open>The script in closed form\<close>

lemma bind_eq_Inr: "bind m f = Inr y \<longleftrightarrow> (\<exists>x. m = Inr x \<and> f x = Inr y)"
  by (cases m) simp_all

lemma bind_eq_Inl: "bind m f = Inl e \<longleftrightarrow> m = Inl e \<or> (\<exists>x. m = Inr x \<and> f x = Inl e)"
  by (cases m) simp_all

lemma mapE_eq_Inr:
  "mapE f xs = Inr ys \<longleftrightarrow> list_all2 (\<lambda>x y. f x = Inr y) xs ys"
proof (induction xs arbitrary: ys)
  case Nil
  then show ?case by auto
next
  case (Cons x xs)
  then show ?case
    by (cases ys) (auto simp: bind_eq_Inr)
qed

lemma length_right_row: "length (right_row d k) = length (cols d)"
  by (simp add: right_row_def split: option.splits val.splits)

lemma right_row_add_prefix: "right_row (add_prefix p d) k = right_row d k"
  by (simp add: right_row_def add_prefix_def case_prod_unfold comp_def split: option.splits val.splits)

lemma columns_add_prefix: "columns (add_prefix p d) = map ((@) p) (columns d)"
  by (simp add: columns_def add_prefix_def case_prod_unfold comp_def)

lemma filter_id: "(\<And>x. x \<in> set xs \<Longrightarrow> P x) \<Longrightarrow> filter P xs = xs"
  by (induction xs) simp_all

lemma map_snd_filter_zip:
  assumes "\<And>c. c \<in> set cs \<Longrightarrow> P c" and "length vs = length cs"
  shows "map snd (filter (\<lambda>cv. P (fst cv)) (zip cs vs)) = vs"
proof -
  have "filter (\<lambda>cv. P (fst cv)) (zip cs vs) = zip cs vs"
    using assms(1) by (intro filter_id) (auto dest: set_zip_leftD)
  then show ?thesis
    using assms(2) by simp
qed

lemma merge1:
  "merge (reset_index (add_match_score fs)) (add_prefix ''df1_'' df1) ''level_0'' =
     Inr \<lparr>tcols = tcols (reset_index (add_match_score fs)) @ map ((@) ''df1_'') (columns df1),
          trows = map (\<lambda>f. [IntV (level_0 f), IntV (level_1 f), FloatV (prob_first_name f),
                         FloatV (prob_last_name f), FloatV (prob_birthdate f),
                         FloatV (prob_city f), FloatV (sum_axis1 f)]
                         @ right_row df1 (Some (IntV (level_0 f)))) fs\<rparr>"
  by (simp add: merge_def reset_index_def add_match_score_def tget_def columns_add_prefix right_row_add_prefix)

lemma merge2:
  "merge \<lparr>tcols = tcols (reset_index (add_match_score fs)) @ map ((@) ''df1_'') (columns df1),
          trows = map (\<lambda>f. [IntV (level_0 f), IntV (level_1 f), FloatV (prob_first_name f),
                         FloatV (prob_last_name f), FloatV (prob_birthdate f),
                         FloatV (prob_city f), FloatV (sum_axis1 f)]
                         @ right_row df1 (Some (IntV (level_0 f)))) fs\<rparr>
     (add_prefix ''df2_'' df2) ''level_1'' =
     Inr \<lparr>tcols = tcols (reset_index (add_match_score fs)) @ map ((@) ''df1_'') (columns df1)
                    @ map ((@) ''df2_'') (columns df2),
          trows = map (\<lambda>f. [IntV (level_0 f), IntV (level_1 f)] @ linked_row df1 df2 f) fs\<rparr>"
  by (simp add: merge_def reset_index_def add_match_score_def tget_def columns_add_prefix right_row_add_prefix
      linked_row_def)

lemma drop_levels:
  "drop_columns
     \<lparr>tcols = tcols (reset_index (add_match_score fs)) @ map ((@) ''df1_'') (columns df1)
                    @ map ((@) ''df2_'') (columns df2),
      trows = map (\<lambda>f. [IntV (level_0 f), IntV (level_1 f)] @ linked_row df1 df2 f) fs\<rparr>
     [''level_0'', ''level_1''] =
   Inr (merged_table df1 df2 fs)"
proof -
  let ?P = "\<lambda>c. c \<noteq> ''level_0'' \<and> c \<noteq> ''level_1''"
  let ?cs = "map ((@) ''df1_'') (columns df1) @ map ((@) ''df2_'') (columns df2)"
  have keep: "?P c" if "c \<in> set ?cs" for c
    using that by auto
  have cols: "filter ?P ?cs = ?cs"
    using keep by (rule filter_id)
  have row: "map snd (filter (\<lambda>cv. ?P (fst cv))
        (zip ?cs (right_row df1 k1 @ right_row df2 k2))) = right_row df1 k1 @ right_row df2 k2"
    for k1 k2
  proof (rule map_snd_filter_zip [where P = ?P])
    show "?P c" if "c \<in> set ?cs" for c
      using that by (rule keep)
    show "length (right_row df1 k1 @ right_row df2 k2) = length ?cs"
      by (simp add: length_right_row columns_def)
  qed
  show ?thesis
    using cols row
    by (simp add: drop_columns_def reset_index_def add_match_score_def score_columns_def linked_row_def merged_table_def)
qed

lemma tget_match_score:
  "tget (merged_table df1 df2 fs) (linked_row df1 df2 f) ''match_score'' = Some (FloatV (sum_axis1 f))"
  by (simp add: tget_def merged_table_def score_columns_def linked_row_def)

lemma select_matches:
  "select_gt (merged_table df1 df2 fs) ''match_score'' 3 =
     Inr (merged_table df1 df2 (filter (\<lambda>f. sum_axis1 f > 3) fs))"
proof -
  have "filter (\<lambda>r. gt_val (tget (merged_table df1 df2 fs) r ''match_score'') 3)
          (map (linked_row df1 df2) fs)
        = map (linked_row df1 df2) (filter (\<lambda>f. sum_axis1 f > 3) fs)"
    by (simp add: filter_map comp_def tget_match_score gt_val_def)
  moreover have "''match_score'' \<in> set (tcols (merged_table df1 df2 fs))"
    by (simp add: merged_table_def score_columns_def)
  ultimately show ?thesis
    by (simp add: select_gt_def merged_table_def)
qed

lemma pipeline_loaded:
  "pipeline jw parse (Some d1) (Some d2) =
     bind (compute jw (full_index (preprocess parse d1) (preprocess parse d2))
             (preprocess parse d1) (preprocess parse d2)) (\<lambda>fs.
       Inr \<lparr>all_possible_combos_with_fields =
              merged_table (preprocess parse d1) (preprocess parse d2) fs,
            linked_records_with_fields =
              merged_table (preprocess parse d1) (preprocess parse d2)
                (filter (\<lambda>f. sum_axis1 f > 3) fs)\<rparr>)"
proof -
  have step: "bind (merge (reset_index (add_match_score fs)) (add_prefix ''df1_'' df1) ''level_0'') (\<lambda>m.
     bind (merge m (add_prefix ''df2_'' df2) ''level_1'') (\<lambda>m.
     bind (drop_columns m [''level_0'', ''level_1'']) (\<lambda>merged.
     bind (select_gt merged ''match_score'' 3) (\<lambda>matches.
       Inr \<lparr>all_possible_combos_with_fields = merged,
            linked_records_with_fields = matches\<rparr>))))
     = Inr \<lparr>all_possible_combos_with_fields = merged_table df1 df2 fs,
            linked_records_with_fields =
              merged_table df1 df2 (filter (\<lambda>f. sum_axis1 f > 3) fs)\<rparr>"
    for fs df1 df2
    by (simp only: merge1 merge2 drop_levels select_matches bind.simps)
  show ?thesis
    by (simp add: pipeline_def read_excel_def Let_def step)
qed

lemma pipeline_eq_Inr:
  "pipeline jw parse file1 file2 = Inr out \<longleftrightarrow>
     (\<exists>d1 d2 fs. file1 = Some d1 \<and> file2 = Some d2
        \<and> compute jw (full_index (preprocess parse d1) (preprocess parse d2))
             (preprocess parse d1) (preprocess parse d2) = Inr fs
        \<and> out = \<lparr>all_possible_combos_with_fields =
              merged_table (preprocess parse d1) (preprocess parse d2) fs,
            linked_records_with_fields =
              merged_table (preprocess parse d1) (preprocess parse d2)
                (filter (\<lambda>f. sum_axis1 f > 3) fs)\<rparr>)"
proof (cases file1)
  case None
  then show ?thesis by (simp add: pipeline_def read_excel_def)
next
  case (Some d1)
  show ?thesis
  proof (cases file2)
    case None
    then show ?thesis using Some by (simp add: pipeline_def read_excel_def)
  next
    case (Some d2)
    then show ?thesis
      using \<open>file1 = Some d1\<close> by (auto simp: pipeline_loaded bind_eq_Inr)
  qed
qed

section \<open>The concrete run, evaluated\<close>

lemma preprocess_example_df1:
  "preprocess example_parse example_df1 = 
     \<lparr>nrows = 2,
      cols = [(''employee_id'', [Num 7, Num 8]),
              (''first_name'', [Str ''Jon'', NA]),
              (''last_name'', [Str ''Smith'', Str ''Smith'']),
              (''birthdate'', [Date 631152000, Date 631152000]),
              (''city'', [Str ''Reno'', Str ''Reno''])]\<rparr>"
  by (simp add: preprocess_def example_df1_def columns_def setitem_def to_datetime_def example_parse_def)

lemma preprocess_example_df2:
  "preprocess example_parse example_df2 = 
     \<lparr>nrows = 2,
      cols = [(''first_name'', [Str ''John'', Str ''Ann'']),
              (''last_name'', [Str ''Smith'', Str ''Lee'']),
              (''birthdate'', [Date 631152000, NA]),
              (''city'', [Str ''Reno'', Str ''Oslo''])]\<rparr>"
  by (simp add: preprocess_def example_df2_def columns_def setitem_def to_datetime_def example_parse_def)

lemma example_compute:
  "compute prefix_similarity
     (full_index (preprocess example_parse example_df1) (preprocess example_parse example_df2))
     (preprocess example_parse example_df1) (preprocess example_parse example_df2) =
   Inr [\<lparr>level_0 = 0, level_1 = 0, prob_first_name = 1/2, prob_last_name = 1,
          prob_birthdate = 1, prob_city = 1\<rparr>,
        \<lparr>level_0 = 0, level_1 = 1, prob_first_name = 0, prob_last_name = 0,
          prob_birthdate = 0, prob_city = 0\<rparr>,
        \<lparr>level_0 = 1, level_1 = 0, prob_first_name = 0, prob_last_name = 1,
          prob_birthdate = 1, prob_city = 1\<rparr>,
        \<lparr>level_0 = 1, level_1 = 1, prob_first_name = 0, prob_last_name = 0,
          prob_birthdate = 0, prob_city = 0\<rparr>]"
  unfolding preprocess_example_df1 preprocess_example_df2
  by (simp add: compute_def select_compared_def getitem_def full_index_def upt_rec
      pair_features_def string_feature_def exact_feature_def loc_def compare_string_def
      jarowinkler_similarity_def fillna_def compare_exact_def prefix_similarity_def)

lemma example_run:
  "pipeline prefix_similarity example_parse (Some example_df1) (Some example_df2) = Inr example_out"
  unfolding pipeline_loaded example_compute
  unfolding preprocess_example_df1 preprocess_example_df2
  by (simp add: merged_table_def linked_row_def right_row_def sum_axis1_def score_columns_def
      columns_def example_out_def example_columns_def)

section \<open>Candidate pairs\<close>

lemma full_index_product: "full_index df1 df2 = List.product [0..<nrows df1] [0..<nrows df2]"
proof -
  have "concat (map (\<lambda>i. map (\<lambda>j. (i, j)) ys) xs) = List.product xs ys"
    for xs :: "nat list" and ys :: "nat list"
    by (induction xs) simp_all
  then show ?thesis
    by (simp add: full_index_def)
qed

lemma length_full_index: "length (full_index df1 df2) = nrows df1 * nrows df2"
  by (simp add: full_index_product)

lemma set_full_index: "set (full_index df1 df2) = {0..<nrows df1} \<times> {0..<nrows df2}"
  by (simp add: full_index_product)

lemma distinct_full_index: "distinct (full_index df1 df2)"
  by (simp add: full_index_product distinct_product)

lemma nth_full_index:
  assumes "i < nrows df1" and "j < nrows df2"
  shows "full_index df1 df2 ! (i * nrows df2 + j) = (i, j)"
proof -
  have "j + i * nrows df2 < nrows df1 * nrows df2"
  proof -
    have "j + i * nrows df2 < nrows df2 + i * nrows df2"
      using assms(2) by simp
    also have "\<dots> = Suc i * nrows df2"
      by simp
    also have "\<dots> \<le> nrows df1 * nrows df2"
      using assms(1) by (intro mult_le_mono1) simp
    finally show ?thesis .
  qed
  then show ?thesis
    using assms
    by (simp add: full_index_product List.product_nth add.commute)
qed

text \<open>
  C1. For datasets of n and m rows the candidate pair generator yields exactly n * m pairs,
  no pair twice, together the whole cross-product of the two indexes, and in the fixed
  order in which pair (i, j) stands at position i * m + j: all pairs of A-index 0 before
  those of A-index 1, B-index ascending within each.
\<close>

theorem candidate_links_cross_product:
  "length (full_index df1 df2) = nrows df1 * nrows df2
   \<and> distinct (full_index df1 df2)
   \<and> set (full_index df1 df2) = {0..<nrows df1} \<times> {0..<nrows df2}
   \<and> (\<forall>i j. i < nrows df1 \<and> j < nrows df2
          \<longrightarrow> full_index df1 df2 ! (i * nrows df2 + j) = (i, j))"
  using length_full_index distinct_full_index set_full_index nth_full_index
  by blast

theorem candidate_links_cross_product_witness:
  "full_index \<lparr>nrows = 2, cols = []\<rparr> \<lparr>nrows = 3, cols = []\<rparr>
     = [(0, 0), (0, 1), (0, 2), (1, 0), (1, 1), (1, 2)]
   \<and> full_index \<lparr>nrows = 2, cols = []\<rparr> \<lparr>nrows = 3, cols = []\<rparr> ! (1 * 3 + 2) = (1, 2)"
proof -
  let ?A = "\<lparr>nrows = 2, cols = []\<rparr>" and ?B = "\<lparr>nrows = 3, cols = []\<rparr>"
  have "\<forall>i j. i < nrows ?A \<and> j < nrows ?B
          \<longrightarrow> full_index ?A ?B ! (i * nrows ?B + j) = (i, j)"
    using candidate_links_cross_product [of ?A ?B] by blast
  then have "(1::nat) < nrows ?A \<and> (2::nat) < nrows ?B
          \<longrightarrow> full_index ?A ?B ! (1 * nrows ?B + 2) = (1, 2)"
    by blast
  then have "full_index ?A ?B ! (1 * 3 + 2) = (1, 2)"
    by simp
  moreover have "full_index ?A ?B = [(0, 0), (0, 1), (0, 2), (1, 0), (1, 1), (1, 2)]"
    by (simp add: full_index_def upt_rec)
  ultimately show ?thesis
    by simp
qed

section \<open>What a completed comparison holds\<close>

lemma compute_eq_Inr:
  "compute jw links df1 df2 = Inr fs \<longleftrightarrow>
     (\<exists>a b. select_compared df1 = Inr a \<and> select_compared df2 = Inr b
        \<and> list_all2 (\<lambda>p f. pair_features jw a b p = Inr f) links fs)"
  by (auto simp: compute_def bind_eq_Inr mapE_eq_Inr)

lemma pair_features_levels:
  "pair_features jw a b p = Inr f \<Longrightarrow> level_0 f = fst p \<and> level_1 f = snd p"
  by (auto simp: pair_features_def bind_eq_Inr)

lemma compute_levels:
  assumes "compute jw links df1 df2 = Inr fs"
  shows "length fs = length links"
    and "k < length links \<Longrightarrow> level_0 (fs ! k) = fst (links ! k) \<and> level_1 (fs ! k) = snd (links ! k)"
proof -
  obtain a b where *: "list_all2 (\<lambda>p f. pair_features jw a b p = Inr f) links fs"
    using assms by (auto simp: compute_eq_Inr)
  then show "length fs = length links"
    by (simp add: list_all2_lengthD)
  show "level_0 (fs ! k) = fst (links ! k) \<and> level_1 (fs ! k) = snd (links ! k)"
    if "k < length links"
    using list_all2_nthD [OF * that] by (rule pair_features_levels)
qed

lemma nrows_preprocess: "nrows (preprocess parse d) = nrows d"
  by (simp add: preprocess_def setitem_def)

lemma columns_preprocess: "columns (preprocess parse d) = columns d"
  by (simp add: preprocess_def setitem_def columns_def case_prod_unfold comp_def
      if_distrib [of fst] cong: if_cong)

lemma length_linked_row:
  "length (linked_row df1 df2 f) = length (tcols (merged_table df1 df2 fs))"
  by (simp add: linked_row_def merged_table_def score_columns_def length_right_row columns_def)

section \<open>Matches\<close>

text \<open>
  C3. Whenever the script completes, the "matches" table has the columns of the "all pairs"
  table and its rows are exactly the rows of "all pairs" whose match score is strictly
  greater than 3, in the same relative order: it is a subsequence of "all pairs", every
  row of "all pairs" carries a score, and a row whose score is exactly 3 is not a match.
\<close>

theorem matches_are_rows_above_threshold:
  assumes "pipeline jw parse file1 file2 = Inr out"
  shows "tcols (linked_records_with_fields out) = tcols (all_possible_combos_with_fields out)
    \<and> trows (linked_records_with_fields out) =
        filter (\<lambda>r. \<exists>s. tget (all_possible_combos_with_fields out) r ''match_score''
                        = Some (FloatV s) \<and> 3 < s)
          (trows (all_possible_combos_with_fields out))
    \<and> subseq (trows (linked_records_with_fields out))
        (trows (all_possible_combos_with_fields out))
    \<and> set (trows (linked_records_with_fields out))
        \<subseteq> set (trows (all_possible_combos_with_fields out))
    \<and> (\<forall>r \<in> set (trows (all_possible_combos_with_fields out)).
          \<exists>s. tget (all_possible_combos_with_fields out) r ''match_score'' = Some (FloatV s))
    \<and> (\<forall>r. tget (all_possible_combos_with_fields out) r ''match_score'' = Some (FloatV 3)
          \<longrightarrow> r \<notin> set (trows (linked_records_with_fields out)))"
proof -
  obtain d1 d2 fs where
    out: "out = \<lparr>all_possible_combos_with_fields =
              merged_table (preprocess parse d1) (preprocess parse d2) fs,
            linked_records_with_fields =
              merged_table (preprocess parse d1) (preprocess parse d2)
                (filter (\<lambda>f. sum_axis1 f > 3) fs)\<rparr>"
    using assms by (auto simp: pipeline_eq_Inr)
  let ?df1 = "preprocess parse d1" and ?df2 = "preprocess parse d2"
  let ?all = "merged_table ?df1 ?df2 fs"
  let ?Q = "\<lambda>r. \<exists>s. tget ?all r ''match_score'' = Some (FloatV s) \<and> 3 < s"
  have score: "tget ?all (linked_row ?df1 ?df2 f) ''match_score'' = Some (FloatV (sum_axis1 f))" for f
    by (rule tget_match_score)
  have rows_all: "trows ?all = map (linked_row ?df1 ?df2) fs"
    by (simp add: merged_table_def)
  have rows_m: "trows (linked_records_with_fields out)
      = map (linked_row ?df1 ?df2) (filter (\<lambda>f. sum_axis1 f > 3) fs)"
    by (simp add: out merged_table_def)
  have filt: "trows (linked_records_with_fields out) = filter ?Q (trows ?all)"
    by (simp add: rows_m rows_all filter_map comp_def score)
  have c1: "tcols (linked_records_with_fields out) = tcols (all_possible_combos_with_fields out)"
    by (simp add: out merged_table_def)
  have c5: "\<forall>r \<in> set (trows ?all). \<exists>s. tget ?all r ''match_score'' = Some (FloatV s)"
    by (auto simp: rows_all score)
  have c6: "\<forall>r. tget ?all r ''match_score'' = Some (FloatV 3)
          \<longrightarrow> r \<notin> set (trows (linked_records_with_fields out))"
    by (auto simp: filt)
  have c3: "subseq (trows (linked_records_with_fields out)) (trows ?all)"
    unfolding filt by (rule subseq_filter_left)
  have c4: "set (trows (linked_records_with_fields out)) \<subseteq> set (trows ?all)"
    unfolding filt by auto
  have all: "all_possible_combos_with_fields out = ?all"
    by (simp add: out)
  show ?thesis
    unfolding all using c1 filt c3 c4 c5 c6 unfolding all by blast
qed

theorem matches_are_rows_above_threshold_witness:
  "pipeline prefix_similarity example_parse (Some example_df1) (Some example_df2) = Inr example_out
   \<and> trows (linked_records_with_fields example_out) =
        filter (\<lambda>r. \<exists>s. tget (all_possible_combos_with_fields example_out) r ''match_score''
                        = Some (FloatV s) \<and> 3 < s)
          (trows (all_possible_combos_with_fields example_out))
   \<and> tget (all_possible_combos_with_fields example_out)
        (trows (all_possible_combos_with_fields example_out) ! 2) ''match_score''
        = Some (FloatV 3)
   \<and> trows (all_possible_combos_with_fields example_out) ! 2
        \<notin> set (trows (linked_records_with_fields example_out))
   \<and> length (trows (all_possible_combos_with_fields example_out)) = 4
   \<and> length (trows (linked_records_with_fields example_out)) = 1"
proof -
  note concl = matches_are_rows_above_threshold [OF example_run]
  have three: "tget (all_possible_combos_with_fields example_out)
        (trows (all_possible_combos_with_fields example_out) ! 2) ''match_score''
        = Some (FloatV 3)"
    by (simp add: example_out_def example_columns_def tget_def)
  have "trows (all_possible_combos_with_fields example_out) ! 2
        \<notin> set (trows (linked_records_with_fields example_out))"
    using concl three by blast
  moreover have "length (trows (all_possible_combos_with_fields example_out)) = 4
    \<and> length (trows (linked_records_with_fields example_out)) = 1"
    by (simp add: example_out_def)
  ultimately show ?thesis
    using concl three example_run by blast
qed

section \<open>Columns and rows of the outputs\<close>

text \<open>
  C4, as amended. The claim names the prefixes \<open>a_\<close> and \<open>b_\<close>; the script uses
  \<open>df1_\<close> and \<open>df2_\<close>. Whenever the script completes, both outputs have the columns
  prob_first_name, prob_last_name, prob_birthdate, prob_city, match_score in that order,
  then every column of the first dataset under the prefix \<open>df1_\<close>, then every column of
  the second under \<open>df2_\<close>; every row of both has one value per column; "all pairs" has
  n * m rows; and the row of pair (i, j), at position i * m + j, is five scores followed by
  row i of the first dataset and row j of the second (with the birthdate as preprocessed).
\<close>

theorem output_columns_and_rows:
  assumes "pipeline jw parse (Some d1) (Some d2) = Inr out"
  shows "tcols (all_possible_combos_with_fields out) =
           [''prob_first_name'', ''prob_last_name'', ''prob_birthdate'', ''prob_city'',
            ''match_score'']
           @ map ((@) ''df1_'') (columns d1) @ map ((@) ''df2_'') (columns d2)
    \<and> tcols (linked_records_with_fields out) = tcols (all_possible_combos_with_fields out)
    \<and> length (trows (all_possible_combos_with_fields out)) = nrows d1 * nrows d2
    \<and> (\<forall>r \<in> set (trows (all_possible_combos_with_fields out))
              \<union> set (trows (linked_records_with_fields out)).
          length r = length (tcols (all_possible_combos_with_fields out)))
    \<and> (\<forall>i j. i < nrows d1 \<and> j < nrows d2 \<longrightarrow>
          (\<exists>p1 p2 p3 p4 ms.
             trows (all_possible_combos_with_fields out) ! (i * nrows d2 + j) =
               [FloatV p1, FloatV p2, FloatV p3, FloatV p4, FloatV ms]
               @ map (\<lambda>(c, vs). CellV (vs ! i)) (cols (preprocess parse d1))
               @ map (\<lambda>(c, vs). CellV (vs ! j)) (cols (preprocess parse d2))))"
proof -
  let ?df1 = "preprocess parse d1" and ?df2 = "preprocess parse d2"
  obtain fs where
    fs: "compute jw (full_index ?df1 ?df2) ?df1 ?df2 = Inr fs" and
    out: "out = \<lparr>all_possible_combos_with_fields = merged_table ?df1 ?df2 fs,
            linked_records_with_fields =
              merged_table ?df1 ?df2 (filter (\<lambda>f. sum_axis1 f > 3) fs)\<rparr>"
    using assms by (auto simp: pipeline_eq_Inr)
  let ?all = "merged_table ?df1 ?df2 fs"
  have all: "all_possible_combos_with_fields out = ?all"
    by (simp add: out)
  have len: "length fs = nrows d1 * nrows d2"
    using compute_levels(1) [OF fs] by (simp add: length_full_index nrows_preprocess)
  have c1: "tcols ?all = [''prob_first_name'', ''prob_last_name'', ''prob_birthdate'',
       ''prob_city'', ''match_score'']
       @ map ((@) ''df1_'') (columns d1) @ map ((@) ''df2_'') (columns d2)"
    by (simp add: merged_table_def score_columns_def columns_preprocess)
  have c2: "tcols (linked_records_with_fields out) = tcols ?all"
    by (simp add: out merged_table_def)
  have c3: "length (trows ?all) = nrows d1 * nrows d2"
    by (simp add: merged_table_def len)
  have c4: "\<forall>r \<in> set (trows ?all) \<union> set (trows (linked_records_with_fields out)).
          length r = length (tcols ?all)"
  proof
    fix r
    assume "r \<in> set (trows ?all) \<union> set (trows (linked_records_with_fields out))"
    then obtain f where "r = linked_row ?df1 ?df2 f"
      by (auto simp: out merged_table_def)
    then show "length r = length (tcols ?all)"
      by (simp add: length_linked_row)
  qed
  have c5: "\<exists>p1 p2 p3 p4 ms.
             trows ?all ! (i * nrows d2 + j) =
               [FloatV p1, FloatV p2, FloatV p3, FloatV p4, FloatV ms]
               @ map (\<lambda>(c, vs). CellV (vs ! i)) (cols ?df1)
               @ map (\<lambda>(c, vs). CellV (vs ! j)) (cols ?df2)"
    if ij: "i < nrows d1" "j < nrows d2" for i j
  proof -
    let ?k = "i * nrows d2 + j"
    have nth: "full_index ?df1 ?df2 ! ?k = (i, j)"
      using nth_full_index [of i ?df1 j ?df2] ij by (simp add: nrows_preprocess)
    have "j + i * nrows d2 < nrows d2 + i * nrows d2"
      using ij(2) by simp
    also have "\<dots> = Suc i * nrows d2"
      by simp
    also have "\<dots> \<le> nrows d1 * nrows d2"
      using ij(1) by (intro mult_le_mono1) simp
    finally have k: "?k < length (full_index ?df1 ?df2)"
      by (simp add: length_full_index nrows_preprocess add.commute)
    have lv: "level_0 (fs ! ?k) = i \<and> level_1 (fs ! ?k) = j"
      using compute_levels(2) [OF fs k] nth by simp
    have "trows ?all ! ?k = linked_row ?df1 ?df2 (fs ! ?k)"
      using k compute_levels(1) [OF fs] by (simp add: merged_table_def)
    then show ?thesis
      using lv ij by (simp add: linked_row_def right_row_def nrows_preprocess)
  qed
  show ?thesis
    unfolding all using c1 c2 c3 c4 c5 unfolding all by blast
qed

text \<open>
  C4 as stated fails on the concrete run: the header is not the one with the prefixes
  \<open>a_\<close> and \<open>b_\<close>.
\<close>

theorem prefix_a_b_counterexample:
  "pipeline prefix_similarity example_parse (Some example_df1) (Some example_df2) = Inr example_out
   \<and> tcols (all_possible_combos_with_fields example_out) \<noteq>
       [''prob_first_name'', ''prob_last_name'', ''prob_birthdate'', ''prob_city'',
        ''match_score'']
       @ map ((@) ''a_'') (columns example_df1) @ map ((@) ''b_'') (columns example_df2)"
  using example_run
  by (simp add: example_out_def example_columns_def columns_def example_df1_def example_df2_def)

theorem output_columns_and_rows_witness:
  "pipeline prefix_similarity example_parse (Some example_df1) (Some example_df2) = Inr example_out
   \<and> tcols (all_possible_combos_with_fields example_out) =
       [''prob_first_name'', ''prob_last_name'', ''prob_birthdate'', ''prob_city'',
        ''match_score'',
        ''df1_employee_id'', ''df1_first_name'', ''df1_last_name'', ''df1_birthdate'',
        ''df1_city'', ''df2_first_name'', ''df2_last_name'', ''df2_birthdate'', ''df2_city'']
   \<and> length (trows (all_possible_combos_with_fields example_out)) = 2 * 2
   \<and> (\<exists>p1 p2 p3 p4 ms.
         trows (all_possible_combos_with_fields example_out) ! (1 * 2 + 0) =
           [FloatV p1, FloatV p2, FloatV p3, FloatV p4, FloatV ms]
           @ [CellV (Num 8), CellV NA, CellV (Str ''Smith''), CellV (Date 631152000),
              CellV (Str ''Reno'')]
           @ [CellV (Str ''John''), CellV (Str ''Smith''), CellV (Date 631152000),
              CellV (Str ''Reno'')])"
proof -
  note concl = output_columns_and_rows [OF example_run]
  have c1: "tcols (all_possible_combos_with_fields example_out) =
       [''prob_first_name'', ''prob_last_name'', ''prob_birthdate'', ''prob_city'',
        ''match_score'',
        ''df1_employee_id'', ''df1_first_name'', ''df1_last_name'', ''df1_birthdate'',
        ''df1_city'', ''df2_first_name'', ''df2_last_name'', ''df2_birthdate'', ''df2_city'']"
    using concl by (simp add: columns_def example_df1_def example_df2_def)
  have c2: "length (trows (all_possible_combos_with_fields example_out)) = 2 * 2"
    using concl by (simp add: example_df1_def example_df2_def)
  have "(1::nat) < nrows example_df1 \<and> (0::nat) < nrows example_df2"
    by (simp add: example_df1_def example_df2_def)
  then have "\<exists>p1 p2 p3 p4 ms.
             trows (all_possible_combos_with_fields example_out)
               ! (1 * nrows example_df2 + 0) =
               [FloatV p1, FloatV p2, FloatV p3, FloatV p4, FloatV ms]
               @ map (\<lambda>(c, vs). CellV (vs ! 1)) (cols (preprocess example_parse example_df1))
               @ map (\<lambda>(c, vs). CellV (vs ! 0)) (cols (preprocess example_parse example_df2))"
    using concl by blast
  then have c3: "\<exists>p1 p2 p3 p4 ms.
         trows (all_possible_combos_with_fields example_out) ! (1 * 2 + 0) =
           [FloatV p1, FloatV p2, FloatV p3, FloatV p4, FloatV ms]
           @ [CellV (Num 8), CellV NA, CellV (Str ''Smith''), CellV (Date 631152000),
              CellV (Str ''Reno'')]
           @ [CellV (Str ''John''), CellV (Str ''Smith''), CellV (Date 631152000),
              CellV (Str ''Reno'')]"
    unfolding preprocess_example_df1 preprocess_example_df2
    by (simp add: example_df2_def)
  show ?thesis
    using example_run c1 c2 c3 by blast
qed

section \<open>The scores of one pair\<close>

lemma loc_eq_Inr: "loc vs i = Inr v \<longleftrightarrow> i < length vs \<and> v = vs ! i"
  by (auto simp: loc_def)

lemma compare_string_NA [simp]:
  "compare_string jw NA y = Inr 0" "compare_string jw x NA = Inr 0"
  by (simp_all add: compare_string_def jarowinkler_similarity_def fillna_def split: cell.splits)

lemma compare_string_Str [simp]: "compare_string jw (Str s) (Str t) = Inr (jw s t)"
  by (simp add: compare_string_def jarowinkler_similarity_def fillna_def)

lemma compare_string_cases:
  assumes "compare_string jw x y = Inr c"
  shows "((x = NA \<or> y = NA) \<and> c = 0) \<or> (\<exists>s t. x = Str s \<and> y = Str t \<and> c = jw s t)"
  using assms
  by (cases x; cases y)
     (auto simp: compare_string_def jarowinkler_similarity_def fillna_def)

lemma string_feature_eq_Inr:
  "string_feature jw a b p = Inr c \<longleftrightarrow>
     fst p < length a \<and> snd p < length b \<and> compare_string jw (a ! fst p) (b ! snd p) = Inr c"
  by (auto simp: string_feature_def bind_eq_Inr loc_eq_Inr)

lemma exact_feature_eq_Inr:
  "exact_feature a b p = Inr c \<longleftrightarrow>
     fst p < length a \<and> snd p < length b \<and> c = compare_exact (a ! fst p) (b ! snd p)"
  by (auto simp: exact_feature_def bind_eq_Inr loc_eq_Inr)

lemma pair_features_eq_Inr:
  "pair_features jw a b p = Inr f \<longleftrightarrow>
     (\<exists>c1 c2 c3 c4.
        string_feature jw (first_name a) (first_name b) p = Inr c1
      \<and> string_feature jw (last_name a) (last_name b) p = Inr c2
      \<and> exact_feature (birthdate a) (birthdate b) p = Inr c3
      \<and> string_feature jw (city a) (city b) p = Inr c4
      \<and> f = \<lparr>level_0 = fst p, level_1 = snd p, prob_first_name = c1, prob_last_name = c2,
              prob_birthdate = c3, prob_city = c4\<rparr>)"
  by (auto simp: pair_features_def bind_eq_Inr)

lemma tget_scores:
  "tget (merged_table df1 df2 fs) (linked_row df1 df2 f) ''prob_first_name''
     = Some (FloatV (prob_first_name f))"
  "tget (merged_table df1 df2 fs) (linked_row df1 df2 f) ''prob_last_name''
     = Some (FloatV (prob_last_name f))"
  "tget (merged_table df1 df2 fs) (linked_row df1 df2 f) ''prob_birthdate''
     = Some (FloatV (prob_birthdate f))"
  "tget (merged_table df1 df2 fs) (linked_row df1 df2 f) ''prob_city''
     = Some (FloatV (prob_city f))"
  by (simp_all add: tget_def merged_table_def score_columns_def linked_row_def)

lemma position_in_range:
  assumes "i < n" and "j < (m::nat)"
  shows "i * m + j < n * m"
proof -
  have "i * m + j < i * m + m"
    using assms(2) by simp
  also have "\<dots> = Suc i * m"
    by simp
  also have "\<dots> \<le> n * m"
    using assms(1) by (intro mult_le_mono1) simp
  finally show ?thesis .
qed

lemma pipeline_rows:
  assumes "pipeline jw parse (Some d1) (Some d2) = Inr out"
  obtains a b fs where
    "select_compared (preprocess parse d1) = Inr a"
    "select_compared (preprocess parse d2) = Inr b"
    "list_all2 (\<lambda>p f. pair_features jw a b p = Inr f)
       (full_index (preprocess parse d1) (preprocess parse d2)) fs"
    "all_possible_combos_with_fields out
       = merged_table (preprocess parse d1) (preprocess parse d2) fs"
    "linked_records_with_fields out
       = merged_table (preprocess parse d1) (preprocess parse d2)
           (filter (\<lambda>f. sum_axis1 f > 3) fs)"
proof -
  obtain fs where
    fs: "compute jw (full_index (preprocess parse d1) (preprocess parse d2))
           (preprocess parse d1) (preprocess parse d2) = Inr fs" and
    out: "out = \<lparr>all_possible_combos_with_fields =
              merged_table (preprocess parse d1) (preprocess parse d2) fs,
            linked_records_with_fields =
              merged_table (preprocess parse d1) (preprocess parse d2)
                (filter (\<lambda>f. sum_axis1 f > 3) fs)\<rparr>"
    using assms by (auto simp: pipeline_eq_Inr)
  from fs obtain a b where
    "select_compared (preprocess parse d1) = Inr a"
    "select_compared (preprocess parse d2) = Inr b"
    "list_all2 (\<lambda>p f. pair_features jw a b p = Inr f)
       (full_index (preprocess parse d1) (preprocess parse d2)) fs"
    by (auto simp: compute_eq_Inr)
  then show ?thesis
    using that out by simp
qed

lemma pipeline_row:
  assumes "pipeline jw parse (Some d1) (Some d2) = Inr out"
    and "i < nrows d1" and "j < nrows d2"
  obtains a b f fs where
    "select_compared (preprocess parse d1) = Inr a"
    "select_compared (preprocess parse d2) = Inr b"
    "pair_features jw a b (i, j) = Inr f"
    "all_possible_combos_with_fields out
       = merged_table (preprocess parse d1) (preprocess parse d2) fs"
    "trows (all_possible_combos_with_fields out) ! (i * nrows d2 + j)
       = linked_row (preprocess parse d1) (preprocess parse d2) f"
proof -
  let ?df1 = "preprocess parse d1" and ?df2 = "preprocess parse d2"
  let ?k = "i * nrows d2 + j"
  obtain a b fs where
    a: "select_compared ?df1 = Inr a" and b: "select_compared ?df2 = Inr b" and
    fs: "list_all2 (\<lambda>p f. pair_features jw a b p = Inr f) (full_index ?df1 ?df2) fs" and
    out: "all_possible_combos_with_fields out = merged_table ?df1 ?df2 fs"
    using assms(1) by (rule pipeline_rows)
  have k: "?k < length (full_index ?df1 ?df2)"
    using position_in_range [OF assms(2,3)] by (simp add: length_full_index nrows_preprocess)
  have nth: "full_index ?df1 ?df2 ! ?k = (i, j)"
    using nth_full_index [of i ?df1 j ?df2] assms(2,3) by (simp add: nrows_preprocess)
  have "pair_features jw a b (i, j) = Inr (fs ! ?k)"
    using list_all2_nthD [OF fs k] nth by simp
  moreover have "trows (all_possible_combos_with_fields out) ! ?k = linked_row ?df1 ?df2 (fs ! ?k)"
    using k list_all2_lengthD [OF fs] by (simp add: out merged_table_def)
  ultimately show ?thesis
    using that a b out by blast
qed

section \<open>The stand-in string metric\<close>

lemma common_prefix_le: "common_prefix s t \<le> length s"
  by (induction s t rule: common_prefix.induct) simp_all

lemma common_prefix_same: "common_prefix s s = length s"
  by (induction s) simp_all

lemma prefix_similarity_range: "0 \<le> prefix_similarity s t \<and> prefix_similarity s t \<le> 1"
proof (cases "s = [] \<or> t = []")
  case True
  then show ?thesis
    by (auto simp: prefix_similarity_def)
next
  case False
  have "real (common_prefix s t) \<le> real (max (length s) (length t))"
    using common_prefix_le [of s t] by simp
  moreover have "0 < real (max (length s) (length t))"
    using False by (cases s) simp_all
  ultimately have "real (common_prefix s t) / real (max (length s) (length t)) \<le> 1"
    by (simp only: divide_le_eq_1_pos)
  then show ?thesis
    using False by (simp add: prefix_similarity_def)
qed

lemma prefix_similarity_same: "s \<noteq> [] \<Longrightarrow> prefix_similarity s s = 1"
  by (simp add: prefix_similarity_def common_prefix_same)

section \<open>Match score\<close>

lemma features_of_rows:
  assumes "list_all2 (\<lambda>p f. pair_features jw a b p = Inr f) links fs" and "f \<in> set fs"
  shows "\<exists>p. pair_features jw a b p = Inr f"
proof -
  obtain k where "k < length fs" "fs ! k = f"
    using assms(2) by (auto simp: in_set_conv_nth)
  then show ?thesis
    using list_all2_nthD2 [OF assms(1), of k] by blast
qed

lemma compare_string_range:
  assumes "compare_string jw x y = Inr c" and "\<forall>s t. 0 \<le> jw s t \<and> jw s t \<le> 1"
  shows "0 \<le> c \<and> c \<le> 1"
  using compare_string_cases [OF assms(1)] assms(2) by auto

lemma compare_exact_range: "0 \<le> compare_exact x y \<and> compare_exact x y \<le> 1"
  by (simp add: compare_exact_def)

lemma pair_features_range:
  assumes "pair_features jw a b p = Inr f" and "\<forall>s t. 0 \<le> jw s t \<and> jw s t \<le> 1"
  shows "0 \<le> sum_axis1 f \<and> sum_axis1 f \<le> 4"
proof -
  obtain c1 c2 c3 c4 where
    c1: "string_feature jw (first_name a) (first_name b) p = Inr c1" and
    c2: "string_feature jw (last_name a) (last_name b) p = Inr c2" and
    c3: "exact_feature (birthdate a) (birthdate b) p = Inr c3" and
    c4: "string_feature jw (city a) (city b) p = Inr c4" and
    f: "f = \<lparr>level_0 = fst p, level_1 = snd p, prob_first_name = c1, prob_last_name = c2,
              prob_birthdate = c3, prob_city = c4\<rparr>"
    using assms(1) by (auto simp: pair_features_eq_Inr)
  have "0 \<le> c1 \<and> c1 \<le> 1"
    using c1 assms(2) by (auto simp: string_feature_eq_Inr dest: compare_string_range)
  moreover have "0 \<le> c2 \<and> c2 \<le> 1"
    using c2 assms(2) by (auto simp: string_feature_eq_Inr dest: compare_string_range)
  moreover have "0 \<le> c3 \<and> c3 \<le> 1"
    using c3 by (simp add: exact_feature_eq_Inr compare_exact_range)
  moreover have "0 \<le> c4 \<and> c4 \<le> 1"
    using c4 assms(2) by (auto simp: string_feature_eq_Inr dest: compare_string_range)
  ultimately show ?thesis
    by (simp add: f sum_axis1_def)
qed

text \<open>
  C2. Whenever the script completes, every row of the "all pairs" output holds four
  component scores under prob_first_name, prob_last_name, prob_birthdate and prob_city,
  and its match_score is their arithmetic sum. The string metric is a library function,
  taken as a parameter: if it only returns values in [0, 1], the match score lies in
  [0, 4].
\<close>

theorem match_score_is_sum_in_range:
  assumes "pipeline jw parse file1 file2 = Inr out"
  shows "\<forall>r \<in> set (trows (all_possible_combos_with_fields out)).
     \<exists>p1 p2 p3 p4.
       tget (all_possible_combos_with_fields out) r ''prob_first_name'' = Some (FloatV p1)
     \<and> tget (all_possible_combos_with_fields out) r ''prob_last_name'' = Some (FloatV p2)
     \<and> tget (all_possible_combos_with_fields out) r ''prob_birthdate'' = Some (FloatV p3)
     \<and> tget (all_possible_combos_with_fields out) r ''prob_city'' = Some (FloatV p4)
     \<and> tget (all_possible_combos_with_fields out) r ''match_score''
         = Some (FloatV (p1 + p2 + p3 + p4))
     \<and> ((\<forall>s t. 0 \<le> jw s t \<and> jw s t \<le> 1)
          \<longrightarrow> 0 \<le> p1 + p2 + p3 + p4 \<and> p1 + p2 + p3 + p4 \<le> 4)"
proof
  fix r
  assume r: "r \<in> set (trows (all_possible_combos_with_fields out))"
  obtain d1 d2 where files: "file1 = Some d1" "file2 = Some d2"
    using assms by (auto simp: pipeline_eq_Inr)
  let ?df1 = "preprocess parse d1" and ?df2 = "preprocess parse d2"
  obtain a b fs where
    fs: "list_all2 (\<lambda>p f. pair_features jw a b p = Inr f) (full_index ?df1 ?df2) fs" and
    out: "all_possible_combos_with_fields out = merged_table ?df1 ?df2 fs"
    using assms unfolding files by (rule pipeline_rows)
  obtain f where f: "f \<in> set fs" and rf: "r = linked_row ?df1 ?df2 f"
    using r by (auto simp: out merged_table_def)
  obtain p where p: "pair_features jw a b p = Inr f"
    using features_of_rows [OF fs f] by blast
  have sum: "sum_axis1 f = prob_first_name f + prob_last_name f + prob_birthdate f + prob_city f"
    by (simp add: sum_axis1_def)
  have rng: "(\<forall>s t. 0 \<le> jw s t \<and> jw s t \<le> 1) \<longrightarrow> 0 \<le> sum_axis1 f \<and> sum_axis1 f \<le> 4"
    using pair_features_range [OF p] by blast
  show "\<exists>p1 p2 p3 p4.
       tget (all_possible_combos_with_fields out) r ''prob_first_name'' = Some (FloatV p1)
     \<and> tget (all_possible_combos_with_fields out) r ''prob_last_name'' = Some (FloatV p2)
     \<and> tget (all_possible_combos_with_fields out) r ''prob_birthdate'' = Some (FloatV p3)
     \<and> tget (all_possible_combos_with_fields out) r ''prob_city'' = Some (FloatV p4)
     \<and> tget (all_possible_combos_with_fields out) r ''match_score''
         = Some (FloatV (p1 + p2 + p3 + p4))
     \<and> ((\<forall>s t. 0 \<le> jw s t \<and> jw s t \<le> 1)
          \<longrightarrow> 0 \<le> p1 + p2 + p3 + p4 \<and> p1 + p2 + p3 + p4 \<le> 4)"
    unfolding out rf
    using rng unfolding sum
    by (intro exI [of _ "prob_first_name f"] exI [of _ "prob_last_name f"]
        exI [of _ "prob_birthdate f"] exI [of _ "prob_city f"])
       (simp add: tget_scores tget_match_score sum)
qed

theorem match_score_is_sum_in_range_witness:
  "pipeline prefix_similarity example_parse (Some example_df1) (Some example_df2) = Inr example_out
   \<and> trows (all_possible_combos_with_fields example_out) ! 0
        \<in> set (trows (all_possible_combos_with_fields example_out))
   \<and> (\<forall>s t. 0 \<le> prefix_similarity s t \<and> prefix_similarity s t \<le> 1)
   \<and> (\<exists>p1 p2 p3 p4.
         tget (all_possible_combos_with_fields example_out)
           (trows (all_possible_combos_with_fields example_out) ! 0) ''match_score''
           = Some (FloatV (p1 + p2 + p3 + p4))
       \<and> 0 \<le> p1 + p2 + p3 + p4 \<and> p1 + p2 + p3 + p4 \<le> 4)
   \<and> tget (all_possible_combos_with_fields example_out)
        (trows (all_possible_combos_with_fields example_out) ! 0) ''match_score''
        = Some (FloatV (1/2 + 1 + 1 + 1))"
proof -
  let ?all = "all_possible_combos_with_fields example_out"
  have mem: "trows ?all ! 0 \<in> set (trows ?all)"
    by (simp add: example_out_def)
  have rng: "\<forall>s t. 0 \<le> prefix_similarity s t \<and> prefix_similarity s t \<le> 1"
    using prefix_similarity_range by blast
  have "\<exists>p1 p2 p3 p4.
         tget ?all (trows ?all ! 0) ''match_score'' = Some (FloatV (p1 + p2 + p3 + p4))
       \<and> 0 \<le> p1 + p2 + p3 + p4 \<and> p1 + p2 + p3 + p4 \<le> 4"
    using match_score_is_sum_in_range [OF example_run] mem rng by blast
  moreover have "tget ?all (trows ?all ! 0) ''match_score'' = Some (FloatV (1/2 + 1 + 1 + 1))"
    by (simp add: example_out_def example_columns_def tget_def)
  ultimately show ?thesis
    using example_run mem rng by blast
qed

section \<open>Preprocessing\<close>

lemma map_of_setitem:
  "map_of (cols (setitem d c f)) k =
     (if k = c then map_option f (map_of (cols d) k) else map_of (cols d) k)"
proof -
  have "map_of (map (\<lambda>(k, vs). if k = c then (k, f vs) else (k, vs)) xs) k =
     (if k = c then map_option f (map_of xs k) else map_of xs k)" for xs
    by (induction xs) auto
  then show ?thesis
    by (simp add: setitem_def)
qed

lemma getitem_preprocess_birthdate:
  "getitem (preprocess parse d) ''birthdate'' =
     (case getitem d ''birthdate'' of
        Inl e \<Rightarrow> Inl e
      | Inr vs \<Rightarrow> Inr (map (to_datetime parse) vs))"
proof (cases "map_of (cols d) ''birthdate''")
  case None
  then have "''birthdate'' \<notin> set (columns d)"
    by (simp add: columns_def map_of_eq_None_iff)
  then show ?thesis
    using None by (simp add: getitem_def preprocess_def)
next
  case (Some vs)
  then have "''birthdate'' \<in> set (columns d)"
    by (auto simp: columns_def dest: map_of_SomeD intro: rev_image_eqI)
  then show ?thesis
    using Some by (simp add: getitem_def preprocess_def map_of_setitem)
qed

lemma getitem_preprocess_other:
  "c \<noteq> ''birthdate'' \<Longrightarrow> getitem (preprocess parse d) c = getitem d c"
  by (simp add: getitem_def preprocess_def map_of_setitem)

lemma to_datetime_canonical: "to_datetime parse v = NA \<or> (\<exists>t. to_datetime parse v = Date t)"
  by (simp add: to_datetime_def split: cell.splits option.splits)

lemma birthdate_preprocessed:
  assumes "select_compared (preprocess parse d) = Inr a" and "i < length (birthdate a)"
  shows "birthdate a ! i = NA \<or> (\<exists>t. birthdate a ! i = Date t)"
proof -
  have "getitem (preprocess parse d) ''birthdate'' = Inr (birthdate a)"
    using assms(1) by (auto simp: select_compared_def bind_eq_Inr)
  then obtain vs where eq: "map (to_datetime parse) vs = birthdate a"
    by (auto simp: getitem_preprocess_birthdate split: sum.splits)
  have "length (birthdate a) = length vs"
    using arg_cong [OF eq, of length] by simp
  then have "map (to_datetime parse) vs ! i = to_datetime parse (vs ! i)"
    using assms(2) by simp
  then have "birthdate a ! i = to_datetime parse (vs ! i)"
    by (simp only: eq)
  then show ?thesis
    using to_datetime_canonical [of parse "vs ! i"] by simp
qed

section \<open>Missing and identical values\<close>

text \<open>
  C5. On a completed run, in the row of candidate pair (i, j): each of prob_first_name,
  prob_last_name and prob_city is 0 when the compared value is missing on either side;
  prob_birthdate is 1 exactly when both birthdates are present and equal, and 0 otherwise;
  the compared birthdates are canonical dates or missing. Comparing a missing value with
  anything returns the score 0 and never an error, so a missing value does not abort the
  run.
\<close>

theorem missing_value_scores_zero:
  assumes "pipeline jw parse (Some d1) (Some d2) = Inr out"
    and "i < nrows d1" and "j < nrows d2"
  shows "\<exists>a b.
      select_compared (preprocess parse d1) = Inr a
    \<and> select_compared (preprocess parse d2) = Inr b
    \<and> ((first_name a ! i = NA \<or> first_name b ! j = NA) \<longrightarrow>
         tget (all_possible_combos_with_fields out)
           (trows (all_possible_combos_with_fields out) ! (i * nrows d2 + j)) ''prob_first_name''
           = Some (FloatV 0))
    \<and> ((last_name a ! i = NA \<or> last_name b ! j = NA) \<longrightarrow>
         tget (all_possible_combos_with_fields out)
           (trows (all_possible_combos_with_fields out) ! (i * nrows d2 + j)) ''prob_last_name''
           = Some (FloatV 0))
    \<and> ((city a ! i = NA \<or> city b ! j = NA) \<longrightarrow>
         tget (all_possible_combos_with_fields out)
           (trows (all_possible_combos_with_fields out) ! (i * nrows d2 + j)) ''prob_city''
           = Some (FloatV 0))
    \<and> tget (all_possible_combos_with_fields out)
           (trows (all_possible_combos_with_fields out) ! (i * nrows d2 + j)) ''prob_birthdate''
         = Some (FloatV (if birthdate a ! i \<noteq> NA \<and> birthdate b ! j \<noteq> NA
                            \<and> birthdate a ! i = birthdate b ! j then 1 else 0))
    \<and> (birthdate a ! i = NA \<or> (\<exists>t. birthdate a ! i = Date t))
    \<and> (birthdate b ! j = NA \<or> (\<exists>t. birthdate b ! j = Date t))
    \<and> (\<forall>x. compare_string jw NA x = Inr 0 \<and> compare_string jw x NA = Inr 0)"
proof -
  let ?df1 = "preprocess parse d1" and ?df2 = "preprocess parse d2"
  obtain a b f fs where
    a: "select_compared ?df1 = Inr a" and b: "select_compared ?df2 = Inr b" and
    f: "pair_features jw a b (i, j) = Inr f" and
    out: "all_possible_combos_with_fields out = merged_table ?df1 ?df2 fs" and
    row: "trows (all_possible_combos_with_fields out) ! (i * nrows d2 + j)
            = linked_row ?df1 ?df2 f"
    using assms by (rule pipeline_row)
  obtain c1 c2 c3 c4 where
    c1: "string_feature jw (first_name a) (first_name b) (i, j) = Inr c1" and
    c2: "string_feature jw (last_name a) (last_name b) (i, j) = Inr c2" and
    c3: "exact_feature (birthdate a) (birthdate b) (i, j) = Inr c3" and
    c4: "string_feature jw (city a) (city b) (i, j) = Inr c4" and
    fe: "f = \<lparr>level_0 = i, level_1 = j, prob_first_name = c1, prob_last_name = c2,
              prob_birthdate = c3, prob_city = c4\<rparr>"
    using f by (auto simp: pair_features_eq_Inr)
  have p1: "(first_name a ! i = NA \<or> first_name b ! j = NA) \<longrightarrow> prob_first_name f = 0"
    using c1 by (auto simp: string_feature_eq_Inr fe)
  have p2: "(last_name a ! i = NA \<or> last_name b ! j = NA) \<longrightarrow> prob_last_name f = 0"
    using c2 by (auto simp: string_feature_eq_Inr fe)
  have p4: "(city a ! i = NA \<or> city b ! j = NA) \<longrightarrow> prob_city f = 0"
    using c4 by (auto simp: string_feature_eq_Inr fe)
  have p3: "prob_birthdate f = (if birthdate a ! i \<noteq> NA \<and> birthdate b ! j \<noteq> NA
                            \<and> birthdate a ! i = birthdate b ! j then 1 else 0)"
    using c3 by (auto simp: exact_feature_eq_Inr fe compare_exact_def)
  have rng: "i < length (birthdate a)" "j < length (birthdate b)"
    using c3 by (simp_all add: exact_feature_eq_Inr)
  have da: "birthdate a ! i = NA \<or> (\<exists>t. birthdate a ! i = Date t)"
    using a rng(1) by (rule birthdate_preprocessed)
  have db: "birthdate b ! j = NA \<or> (\<exists>t. birthdate b ! j = Date t)"
    using b rng(2) by (rule birthdate_preprocessed)
  have na: "\<forall>x. compare_string jw NA x = Inr 0 \<and> compare_string jw x NA = Inr 0"
    by simp
  show ?thesis
    unfolding row unfolding out tget_scores
    using a b p1 p2 p3 p4 da db na by (intro exI [of _ a] exI [of _ b]) simp
qed


lemma example_compared_df1:
  "select_compared (preprocess example_parse example_df1) =
     Inr \<lparr>first_name = [Str ''Jon'', NA], last_name = [Str ''Smith'', Str ''Smith''],
          birthdate = [Date 631152000, Date 631152000], city = [Str ''Reno'', Str ''Reno'']\<rparr>"
  unfolding preprocess_example_df1 by (simp add: select_compared_def getitem_def)

lemma example_compared_df2:
  "select_compared (preprocess example_parse example_df2) =
     Inr \<lparr>first_name = [Str ''John'', Str ''Ann''], last_name = [Str ''Smith'', Str ''Lee''],
          birthdate = [Date 631152000, NA], city = [Str ''Reno'', Str ''Oslo'']\<rparr>"
  unfolding preprocess_example_df2 by (simp add: select_compared_def getitem_def)

theorem missing_value_scores_zero_witness:
  "pipeline prefix_similarity example_parse (Some example_df1) (Some example_df2) = Inr example_out
   \<and> (1::nat) < nrows example_df1 \<and> (1::nat) < nrows example_df2
   \<and> (\<exists>a b.
        select_compared (preprocess example_parse example_df1) = Inr a
      \<and> select_compared (preprocess example_parse example_df2) = Inr b
      \<and> first_name a ! 1 = NA
      \<and> tget (all_possible_combos_with_fields example_out)
           (trows (all_possible_combos_with_fields example_out) ! (1 * nrows example_df2 + 1))
           ''prob_first_name'' = Some (FloatV 0)
      \<and> birthdate b ! 1 = NA
      \<and> tget (all_possible_combos_with_fields example_out)
           (trows (all_possible_combos_with_fields example_out) ! (1 * nrows example_df2 + 1))
           ''prob_birthdate'' = Some (FloatV 0))"
proof -
  have i: "(1::nat) < nrows example_df1" and j: "(1::nat) < nrows example_df2"
    by (simp_all add: example_df1_def example_df2_def)
  obtain a b where
    a: "select_compared (preprocess example_parse example_df1) = Inr a" and
    b: "select_compared (preprocess example_parse example_df2) = Inr b" and
    fn: "(first_name a ! 1 = NA \<or> first_name b ! 1 = NA) \<longrightarrow>
         tget (all_possible_combos_with_fields example_out)
           (trows (all_possible_combos_with_fields example_out) ! (1 * nrows example_df2 + 1))
           ''prob_first_name'' = Some (FloatV 0)" and
    bd: "tget (all_possible_combos_with_fields example_out)
           (trows (all_possible_combos_with_fields example_out) ! (1 * nrows example_df2 + 1))
           ''prob_birthdate''
         = Some (FloatV (if birthdate a ! 1 \<noteq> NA \<and> birthdate b ! 1 \<noteq> NA
                            \<and> birthdate a ! 1 = birthdate b ! 1 then 1 else 0))"
    using missing_value_scores_zero [OF example_run i j] by blast
  have a1: "first_name a ! 1 = NA"
    using a by (auto simp: example_compared_df1)
  have b1: "birthdate b ! 1 = NA"
    using b by (auto simp: example_compared_df2)
  show ?thesis
    using example_run i j a b a1 b1 fn bd by auto
qed

section \<open>Absent columns\<close>

lemma mapE_eq_Inl: "mapE f xs = Inl e \<Longrightarrow> \<exists>x \<in> set xs. f x = Inl e"
  by (induction xs arbitrary: e) (auto simp: bind_eq_Inl)

lemma getitem_eq_Inl: "getitem d c = Inl e \<longleftrightarrow> e = KeyError c \<and> c \<notin> set (columns d)"
proof (cases "map_of (cols d) c")
  case None
  then have "c \<notin> set (columns d)"
    by (simp add: columns_def map_of_eq_None_iff)
  then show ?thesis
    using None by (auto simp: getitem_def)
next
  case (Some vs)
  then have "(c, vs) \<in> set (cols d)"
    by (rule map_of_SomeD)
  then have "c \<in> set (columns d)"
    unfolding columns_def by (simp add: rev_image_eqI)
  then show ?thesis
    using Some by (simp add: getitem_def)
qed

lemma getitem_eq_Inr_ex: "(\<exists>vs. getitem d c = Inr vs) \<longleftrightarrow> c \<in> set (columns d)"
proof (cases "getitem d c")
  case (Inl e)
  then have "c \<notin> set (columns d)"
    by (simp add: getitem_eq_Inl)
  then show ?thesis
    using Inl by simp
next
  case (Inr vs)
  then have "getitem d c \<noteq> Inl (KeyError c)"
    by simp
  then have "c \<in> set (columns d)"
    by (simp add: getitem_eq_Inl)
  then show ?thesis
    using Inr by blast
qed

lemma select_compared_eq_Inl:
  assumes "select_compared d = Inl e"
  shows "\<exists>c \<in> {''first_name'', ''last_name'', ''birthdate'', ''city''}.
           e = KeyError c \<and> c \<notin> set (columns d)"
  using assms by (auto simp: select_compared_def bind_eq_Inl getitem_eq_Inl)

lemma select_compared_present:
  assumes "{''first_name'', ''last_name'', ''birthdate'', ''city''} \<subseteq> set (columns d)"
  shows "\<exists>a. select_compared d = Inr a"
proof -
  have "''first_name'' \<in> set (columns d)"
    using assms by simp
  then obtain c1 where c1: "getitem d ''first_name'' = Inr c1"
    using getitem_eq_Inr_ex [of d "''first_name''"] by blast
  have "''last_name'' \<in> set (columns d)"
    using assms by simp
  then obtain c2 where c2: "getitem d ''last_name'' = Inr c2"
    using getitem_eq_Inr_ex [of d "''last_name''"] by blast
  have "''birthdate'' \<in> set (columns d)"
    using assms by simp
  then obtain c3 where c3: "getitem d ''birthdate'' = Inr c3"
    using getitem_eq_Inr_ex [of d "''birthdate''"] by blast
  have "''city'' \<in> set (columns d)"
    using assms by simp
  then obtain c4 where c4: "getitem d ''city'' = Inr c4"
    using getitem_eq_Inr_ex [of d "''city''"] by blast
  show ?thesis
    by (simp add: select_compared_def c1 c2 c3 c4)
qed

lemma select_compared_Inr_columns:
  assumes "select_compared d = Inr a"
  shows "{''first_name'', ''last_name'', ''birthdate'', ''city''} \<subseteq> set (columns d)"
proof -
  have g: "getitem d ''first_name'' = Inr (first_name a)" "getitem d ''last_name'' = Inr (last_name a)"
    "getitem d ''birthdate'' = Inr (birthdate a)" "getitem d ''city'' = Inr (city a)"
    using assms by (auto simp: select_compared_def bind_eq_Inr)
  have "''first_name'' \<in> set (columns d)"
    using g(1) getitem_eq_Inr_ex [of d "''first_name''"] by blast
  moreover have "''last_name'' \<in> set (columns d)"
    using g(2) getitem_eq_Inr_ex [of d "''last_name''"] by blast
  moreover have "''birthdate'' \<in> set (columns d)"
    using g(3) getitem_eq_Inr_ex [of d "''birthdate''"] by blast
  moreover have "''city'' \<in> set (columns d)"
    using g(4) getitem_eq_Inr_ex [of d "''city''"] by blast
  ultimately show ?thesis
    by simp
qed

lemma select_compared_absent:
  assumes "c \<in> {''first_name'', ''last_name'', ''birthdate'', ''city''}" and "c \<notin> set (columns d)"
  shows "\<exists>c' \<in> {''first_name'', ''last_name'', ''birthdate'', ''city''}.
           select_compared d = Inl (KeyError c') \<and> c' \<notin> set (columns d)"
proof (cases "select_compared d")
  case (Inl e)
  then show ?thesis
    using select_compared_eq_Inl [OF Inl] by blast
next
  case (Inr a)
  then have "c \<in> set (columns d)"
    using select_compared_Inr_columns [OF Inr] assms(1) by blast
  then show ?thesis
    using assms(2) by simp
qed

lemma compute_absent:
  assumes "c \<in> {''first_name'', ''last_name'', ''birthdate'', ''city''}"
    and "c \<notin> set (columns df1) \<or> c \<notin> set (columns df2)"
  shows "\<exists>c' \<in> {''first_name'', ''last_name'', ''birthdate'', ''city''}.
           compute jw links df1 df2 = Inl (KeyError c')
           \<and> (c' \<notin> set (columns df1) \<or> c' \<notin> set (columns df2))"
proof (cases "select_compared df1")
  case (Inl e)
  then obtain c' where "c' \<in> {''first_name'', ''last_name'', ''birthdate'', ''city''}"
    "e = KeyError c'" "c' \<notin> set (columns df1)"
    using select_compared_eq_Inl [OF Inl] by blast
  then show ?thesis
    using Inl by (intro bexI [of _ c']) (simp_all add: compute_def)
next
  case (Inr a)
  then have "c \<in> set (columns df1)"
    using select_compared_Inr_columns [OF Inr] assms(1) by blast
  then have "c \<notin> set (columns df2)"
    using assms(2) by simp
  then obtain c' where "c' \<in> {''first_name'', ''last_name'', ''birthdate'', ''city''}"
    "select_compared df2 = Inl (KeyError c')" "c' \<notin> set (columns df2)"
    using select_compared_absent [OF assms(1)] by blast
  then show ?thesis
    using Inr by (intro bexI [of _ c']) (simp_all add: compute_def)
qed

text \<open>
  C10. When one of the four compared columns (first_name, last_name, birthdate, city) is
  absent from either dataset, the comparison step raises KeyError for an absent compared
  column and the script ends with that error, so no output is produced. The birthdate
  normalisation alone tolerates an absent column: without a birthdate column it leaves
  the frame as it is.
\<close>

theorem absent_compared_column_aborts:
  assumes "c \<in> {''first_name'', ''last_name'', ''birthdate'', ''city''}"
    and "c \<notin> set (columns d1) \<or> c \<notin> set (columns d2)"
  shows "(\<exists>c' \<in> {''first_name'', ''last_name'', ''birthdate'', ''city''}.
            (c' \<notin> set (columns d1) \<or> c' \<notin> set (columns d2))
          \<and> compute jw (full_index (preprocess parse d1) (preprocess parse d2))
              (preprocess parse d1) (preprocess parse d2) = Inl (KeyError c')
          \<and> pipeline jw parse (Some d1) (Some d2) = Inl (KeyError c'))
    \<and> (''birthdate'' \<notin> set (columns d1) \<longrightarrow> preprocess parse d1 = d1)
    \<and> (''birthdate'' \<notin> set (columns d2) \<longrightarrow> preprocess parse d2 = d2)"
proof -
  let ?df1 = "preprocess parse d1" and ?df2 = "preprocess parse d2"
  have "c \<notin> set (columns ?df1) \<or> c \<notin> set (columns ?df2)"
    using assms(2) by (simp add: columns_preprocess)
  then obtain c' where c': "c' \<in> {''first_name'', ''last_name'', ''birthdate'', ''city''}"
    "compute jw (full_index ?df1 ?df2) ?df1 ?df2 = Inl (KeyError c')"
    "c' \<notin> set (columns ?df1) \<or> c' \<notin> set (columns ?df2)"
    using compute_absent [OF assms(1), of ?df1 ?df2 jw "full_index ?df1 ?df2"] by blast
  have absent: "c' \<notin> set (columns d1) \<or> c' \<notin> set (columns d2)"
    using c'(3) by (simp add: columns_preprocess)
  have run: "pipeline jw parse (Some d1) (Some d2) = Inl (KeyError c')"
    using c'(2) by (simp add: pipeline_loaded)
  have p1: "''birthdate'' \<notin> set (columns d1) \<longrightarrow> preprocess parse d1 = d1"
    by (simp add: preprocess_def)
  have p2: "''birthdate'' \<notin> set (columns d2) \<longrightarrow> preprocess parse d2 = d2"
    by (simp add: preprocess_def)
  show ?thesis
    using c'(1,2) absent run p1 p2 by blast
qed

theorem absent_compared_column_aborts_witness:
  "''city'' \<in> {''first_name'', ''last_name'', ''birthdate'', ''city''}
   \<and> ''city'' \<notin> set (columns \<lparr>nrows = 1, cols = [(''first_name'', [Str ''Ann''])]\<rparr>)
   \<and> (\<exists>c'. pipeline prefix_similarity example_parse
              (Some \<lparr>nrows = 1, cols = [(''first_name'', [Str ''Ann''])]\<rparr>) (Some example_df2)
            = Inl (KeyError c'))
   \<and> pipeline prefix_similarity example_parse
              (Some \<lparr>nrows = 1, cols = [(''first_name'', [Str ''Ann''])]\<rparr>) (Some example_df2)
            = Inl (KeyError ''last_name'')
   \<and> preprocess example_parse \<lparr>nrows = 1, cols = [(''first_name'', [Str ''Ann''])]\<rparr>
       = \<lparr>nrows = 1, cols = [(''first_name'', [Str ''Ann''])]\<rparr>"
proof -
  let ?d = "\<lparr>nrows = 1, cols = [(''first_name'', [Str ''Ann''])]\<rparr>"
  have c: "''city'' \<in> {''first_name'', ''last_name'', ''birthdate'', ''city''}"
    by simp
  have absent: "''city'' \<notin> set (columns ?d)"
    by (simp add: columns_def)
  then have absent': "''city'' \<notin> set (columns ?d) \<or> ''city'' \<notin> set (columns example_df2)"
    by simp
  note concl = absent_compared_column_aborts
    [OF c absent', of prefix_similarity example_parse]
  have ex: "\<exists>c'. pipeline prefix_similarity example_parse (Some ?d) (Some example_df2)
            = Inl (KeyError c')"
    using concl by blast
  have pre: "preprocess example_parse ?d = ?d"
    using concl by (simp add: columns_def)
  have run: "pipeline prefix_similarity example_parse (Some ?d) (Some example_df2)
            = Inl (KeyError ''last_name'')"
    unfolding pipeline_loaded pre
    by (simp add: compute_def select_compared_def getitem_def)
  show ?thesis
    using c absent ex run pre by blast
qed

section \<open>Loading\<close>

lemma loc_not_LoadError: "loc vs i \<noteq> Inl LoadError"
  by (simp add: loc_def)

lemma compare_string_not_LoadError: "compare_string jw x y \<noteq> Inl LoadError"
  by (cases x; cases y)
     (simp_all add: compare_string_def jarowinkler_similarity_def)

lemma string_feature_not_LoadError: "string_feature jw a b p \<noteq> Inl LoadError"
  by (auto simp: string_feature_def bind_eq_Inl loc_not_LoadError compare_string_not_LoadError)

lemma exact_feature_not_LoadError: "exact_feature a b p \<noteq> Inl LoadError"
  by (auto simp: exact_feature_def bind_eq_Inl loc_not_LoadError)

lemma pair_features_not_LoadError: "pair_features jw a b p \<noteq> Inl LoadError"
  by (auto simp: pair_features_def bind_eq_Inl string_feature_not_LoadError
      exact_feature_not_LoadError)

lemma compute_not_LoadError: "compute jw links df1 df2 \<noteq> Inl LoadError"
proof
  assume "compute jw links df1 df2 = Inl LoadError"
  then consider "select_compared df1 = Inl LoadError" | "select_compared df2 = Inl LoadError"
    | a b where "mapE (pair_features jw a b) links = Inl LoadError"
    by (auto simp: compute_def bind_eq_Inl)
  then show False
  proof cases
    case 1
    then show ?thesis
      using select_compared_eq_Inl by blast
  next
    case 2
    then show ?thesis
      using select_compared_eq_Inl by blast
  next
    case 3
    then show ?thesis
      using mapE_eq_Inl pair_features_not_LoadError by blast
  qed
qed

lemma pipeline_LoadError:
  "pipeline jw parse file1 file2 = Inl LoadError \<longleftrightarrow> file1 = None \<or> file2 = None"
proof (cases file1)
  case None
  then show ?thesis
    by (simp add: pipeline_def read_excel_def)
next
  case (Some d1)
  note f1 = this
  show ?thesis
  proof (cases file2)
    case None
    then show ?thesis
      using f1 by (simp add: pipeline_def read_excel_def)
  next
    case (Some d2)
    then show ?thesis
      using f1 compute_not_LoadError by (auto simp: pipeline_loaded bind_eq_Inl)
  qed
qed

text \<open>
  C6. Reading a file fails only when the file cannot be located or decoded, and the
  script ends with a load error exactly when that is so for one of the two files. The
  birthdate column of a loaded frame is the original column with every value coerced:
  each value of it is a date or missing, and a value that is neither a date nor missing
  and that the parser cannot parse becomes missing, with no error raised.
\<close>

theorem unparseable_birthdate_becomes_missing:
  "(\<forall>e. read_excel file = Inl e \<longrightarrow> file = None)
   \<and> (pipeline jw parse file1 file2 = Inl LoadError \<longleftrightarrow> file1 = None \<or> file2 = None)
   \<and> (\<forall>vs. getitem d ''birthdate'' = Inr vs \<longrightarrow>
          getitem (preprocess parse d) ''birthdate'' = Inr (map (to_datetime parse) vs))
   \<and> (\<forall>vs. getitem (preprocess parse d) ''birthdate'' = Inr vs \<longrightarrow>
          (\<forall>v \<in> set vs. v = NA \<or> (\<exists>t. v = Date t)))
   \<and> (\<forall>v. v \<noteq> NA \<and> (\<forall>t. v \<noteq> Date t) \<and> parse v = None \<longrightarrow> to_datetime parse v = NA)"
proof -
  have c1: "\<forall>e. read_excel file = Inl e \<longrightarrow> file = None"
    by (simp add: read_excel_def split: option.splits)
  have c3: "\<forall>vs. getitem d ''birthdate'' = Inr vs \<longrightarrow>
          getitem (preprocess parse d) ''birthdate'' = Inr (map (to_datetime parse) vs)"
    by (simp add: getitem_preprocess_birthdate)
  have c4: "\<forall>vs. getitem (preprocess parse d) ''birthdate'' = Inr vs \<longrightarrow>
          (\<forall>v \<in> set vs. v = NA \<or> (\<exists>t. v = Date t))"
  proof (intro allI impI ballI)
    fix vs v
    assume g: "getitem (preprocess parse d) ''birthdate'' = Inr vs" and v: "v \<in> set vs"
    obtain ws where "vs = map (to_datetime parse) ws"
      using g by (cases "getitem d ''birthdate''") (auto simp: getitem_preprocess_birthdate)
    then obtain w where "v = to_datetime parse w"
      using v by auto
    then show "v = NA \<or> (\<exists>t. v = Date t)"
      using to_datetime_canonical [of parse w] by simp
  qed
  have c5: "\<forall>v. v \<noteq> NA \<and> (\<forall>t. v \<noteq> Date t) \<and> parse v = None \<longrightarrow> to_datetime parse v = NA"
    by (simp add: to_datetime_def split: cell.splits)
  show ?thesis
    using c1 pipeline_LoadError c3 c4 c5 by blast
qed

theorem unparseable_birthdate_becomes_missing_witness:
  "getitem example_df2 ''birthdate'' = Inr [Date 631152000, Str ''n/a'']
   \<and> example_parse (Str ''n/a'') = None
   \<and> to_datetime example_parse (Str ''n/a'') = NA
   \<and> getitem (preprocess example_parse example_df2) ''birthdate'' = Inr [Date 631152000, NA]
   \<and> list_all (\<lambda>v. v = NA \<or> (\<exists>t. v = Date t)) [Date 631152000, NA]
   \<and> read_excel (Some example_df2) = Inr example_df2"
proof -
  note concl = unparseable_birthdate_becomes_missing
    [of "Some example_df2" prefix_similarity example_parse "Some example_df1"
      "Some example_df2" example_df2]
  have g: "getitem example_df2 ''birthdate'' = Inr [Date 631152000, Str ''n/a'']"
    by (simp add: getitem_def example_df2_def)
  have p: "example_parse (Str ''n/a'') = None"
    by (simp add: example_parse_def)
  have "Str ''n/a'' \<noteq> NA \<and> (\<forall>t. Str ''n/a'' \<noteq> Date t) \<and> example_parse (Str ''n/a'') = None"
    using p by simp
  then have t: "to_datetime example_parse (Str ''n/a'') = NA"
    using concl by blast
  have "getitem (preprocess example_parse example_df2) ''birthdate''
          = Inr (map (to_datetime example_parse) [Date 631152000, Str ''n/a''])"
    using concl g by blast
  then have g': "getitem (preprocess example_parse example_df2) ''birthdate''
          = Inr [Date 631152000, NA]"
    by (simp add: t to_datetime_def p)
  then have "\<forall>v \<in> set [Date 631152000, NA]. v = NA \<or> (\<exists>t. v = Date t)"
    using concl by blast
  then have "list_all (\<lambda>v. v = NA \<or> (\<exists>t. v = Date t)) [Date 631152000, NA]"
    by (simp only: list_all_iff)
  moreover have "read_excel (Some example_df2) = Inr example_df2"
    by (simp add: read_excel_def)
  ultimately show ?thesis
    using g p t g' by blast
qed

section \<open>Empty datasets\<close>

lemma full_index_empty:
  "nrows df1 = 0 \<or> nrows df2 = 0 \<Longrightarrow> full_index df1 df2 = []"
  by (auto simp: full_index_def)

text \<open>
  C8, as amended. If either dataset has zero rows and both datasets have the four compared
  columns, there are no candidate pairs and the script completes with two outputs that
  have the full header and no data rows.
\<close>

theorem empty_dataset_gives_empty_outputs:
  assumes "nrows d1 = 0 \<or> nrows d2 = 0"
    and "{''first_name'', ''last_name'', ''birthdate'', ''city''} \<subseteq> set (columns d1)"
    and "{''first_name'', ''last_name'', ''birthdate'', ''city''} \<subseteq> set (columns d2)"
  shows "full_index (preprocess parse d1) (preprocess parse d2) = []
    \<and> pipeline jw parse (Some d1) (Some d2) =
        Inr \<lparr>all_possible_combos_with_fields =
               \<lparr>tcols = [''prob_first_name'', ''prob_last_name'', ''prob_birthdate'',
                          ''prob_city'', ''match_score'']
                         @ map ((@) ''df1_'') (columns d1) @ map ((@) ''df2_'') (columns d2),
                trows = []\<rparr>,
             linked_records_with_fields =
               \<lparr>tcols = [''prob_first_name'', ''prob_last_name'', ''prob_birthdate'',
                          ''prob_city'', ''match_score'']
                         @ map ((@) ''df1_'') (columns d1) @ map ((@) ''df2_'') (columns d2),
                trows = []\<rparr>\<rparr>"
proof -
  let ?df1 = "preprocess parse d1" and ?df2 = "preprocess parse d2"
  have links: "full_index ?df1 ?df2 = []"
    using assms(1) by (intro full_index_empty) (simp add: nrows_preprocess)
  obtain a where a: "select_compared ?df1 = Inr a"
    using select_compared_present [of ?df1] assms(2) by (auto simp: columns_preprocess)
  obtain b where b: "select_compared ?df2 = Inr b"
    using select_compared_present [of ?df2] assms(3) by (auto simp: columns_preprocess)
  have "compute jw (full_index ?df1 ?df2) ?df1 ?df2 = Inr []"
    by (simp add: compute_def a b links)
  then have "pipeline jw parse (Some d1) (Some d2) =
     Inr \<lparr>all_possible_combos_with_fields = merged_table ?df1 ?df2 [],
          linked_records_with_fields = merged_table ?df1 ?df2 []\<rparr>"
    by (simp add: pipeline_loaded)
  then show ?thesis
    using links by (simp add: merged_table_def score_columns_def columns_preprocess)
qed

theorem empty_dataset_gives_empty_outputs_witness:
  "(nrows example_empty = 0 \<or> nrows example_df2 = 0)
   \<and> {''first_name'', ''last_name'', ''birthdate'', ''city''} \<subseteq> set (columns example_empty)
   \<and> {''first_name'', ''last_name'', ''birthdate'', ''city''} \<subseteq> set (columns example_df2)
   \<and> pipeline prefix_similarity example_parse (Some example_empty) (Some example_df2) =
        Inr \<lparr>all_possible_combos_with_fields =
               \<lparr>tcols = [''prob_first_name'', ''prob_last_name'', ''prob_birthdate'',
                          ''prob_city'', ''match_score'',
                          ''df1_first_name'', ''df1_last_name'', ''df1_birthdate'', ''df1_city'',
                          ''df2_first_name'', ''df2_last_name'', ''df2_birthdate'', ''df2_city''],
                trows = []\<rparr>,
             linked_records_with_fields =
               \<lparr>tcols = [''prob_first_name'', ''prob_last_name'', ''prob_birthdate'',
                          ''prob_city'', ''match_score'',
                          ''df1_first_name'', ''df1_last_name'', ''df1_birthdate'', ''df1_city'',
                          ''df2_first_name'', ''df2_last_name'', ''df2_birthdate'', ''df2_city''],
                trows = []\<rparr>\<rparr>"
proof -
  have h1: "nrows example_empty = 0 \<or> nrows example_df2 = 0"
    by (simp add: example_empty_def)
  have h2: "{''first_name'', ''last_name'', ''birthdate'', ''city''} \<subseteq> set (columns example_empty)"
    by (simp add: example_empty_def columns_def)
  have h3: "{''first_name'', ''last_name'', ''birthdate'', ''city''} \<subseteq> set (columns example_df2)"
    by (simp add: example_df2_def columns_def)
  have cs: "columns example_empty = [''first_name'', ''last_name'', ''birthdate'', ''city'']"
    "columns example_df2 = [''first_name'', ''last_name'', ''birthdate'', ''city'']"
    by (simp_all add: example_empty_def example_df2_def columns_def)
  note concl = empty_dataset_gives_empty_outputs
    [OF h1 h2 h3, of example_parse prefix_similarity]
  show ?thesis
    using h1 h2 h3 concl unfolding cs by simp
qed

text \<open>
  C8 as stated fails: a sheet with no header and no rows is a dataset with zero rows, and
  the script ends with KeyError on it.
\<close>

theorem blank_sheet_counterexample:
  "nrows \<lparr>nrows = 0, cols = []\<rparr> = 0
   \<and> pipeline prefix_similarity example_parse (Some \<lparr>nrows = 0, cols = []\<rparr>) (Some example_df2)
       = Inl (KeyError ''first_name'')"
proof -
  have "preprocess example_parse \<lparr>nrows = 0, cols = []\<rparr> = \<lparr>nrows = 0, cols = []\<rparr>"
    by (simp add: preprocess_def columns_def)
  then show ?thesis
    by (simp add: pipeline_loaded compute_def select_compared_def getitem_def)
qed

section \<open>Completion\<close>

lemma mapE_total:
  assumes "\<And>x. x \<in> set xs \<Longrightarrow> \<exists>y. f x = Inr y"
  shows "\<exists>ys. mapE f xs = Inr ys"
  using assms
proof (induction xs)
  case Nil
  then show ?case by simp
next
  case (Cons x xs)
  obtain y where y: "f x = Inr y"
    using Cons.prems [of x] by auto
  obtain ys where ys: "mapE f xs = Inr ys"
    using Cons.IH Cons.prems by auto
  show ?case
    by (simp add: y ys)
qed

lemma compare_string_text:
  assumes "text_or_null x" and "text_or_null y"
  shows "\<exists>c. compare_string jw x y = Inr c"
  using assms by (cases x; cases y) (simp_all add: text_or_null_def)

lemma getitem_length:
  assumes "wf_frame d" and "getitem d c = Inr vs"
  shows "length vs = nrows d"
proof -
  have "map_of (cols d) c = Some vs"
    using assms(2) by (simp add: getitem_def split: option.splits)
  then have "(c, vs) \<in> set (cols d)"
    by (rule map_of_SomeD)
  then show ?thesis
    using assms(1) by (auto simp: wf_frame_def list_all_iff)
qed

lemma string_feature_total:
  assumes "list_all text_or_null a" and "list_all text_or_null b"
    and "fst p < length a" and "snd p < length b"
  shows "\<exists>c. string_feature jw a b p = Inr c"
proof -
  have "text_or_null (a ! fst p)" "text_or_null (b ! snd p)"
    using assms by (simp_all add: list_all_length)
  then obtain c where "compare_string jw (a ! fst p) (b ! snd p) = Inr c"
    using compare_string_text by blast
  then show ?thesis
    using assms(3,4) by (auto simp: string_feature_eq_Inr)
qed

lemma select_compared_wf:
  assumes "wf_frame d" and "string_columns_are_text d"
    and "select_compared (preprocess parse d) = Inr a"
  shows "length (first_name a) = nrows d \<and> length (last_name a) = nrows d
       \<and> length (birthdate a) = nrows d \<and> length (city a) = nrows d
       \<and> list_all text_or_null (first_name a) \<and> list_all text_or_null (last_name a)
       \<and> list_all text_or_null (city a)"
proof -
  have g: "getitem (preprocess parse d) ''first_name'' = Inr (first_name a)"
    "getitem (preprocess parse d) ''last_name'' = Inr (last_name a)"
    "getitem (preprocess parse d) ''birthdate'' = Inr (birthdate a)"
    "getitem (preprocess parse d) ''city'' = Inr (city a)"
    using assms(3) by (auto simp: select_compared_def bind_eq_Inr)
  have fn: "getitem d ''first_name'' = Inr (first_name a)"
    using g(1) by (simp add: getitem_preprocess_other)
  have ln: "getitem d ''last_name'' = Inr (last_name a)"
    using g(2) by (simp add: getitem_preprocess_other)
  have ci: "getitem d ''city'' = Inr (city a)"
    using g(4) by (simp add: getitem_preprocess_other)
  obtain vs where vs: "getitem d ''birthdate'' = Inr vs" "birthdate a = map (to_datetime parse) vs"
    using g(3) by (cases "getitem d ''birthdate''") (auto simp: getitem_preprocess_birthdate)
  have "length (birthdate a) = nrows d"
    using getitem_length [OF assms(1) vs(1)] vs(2) by simp
  moreover have "list_all text_or_null (first_name a)"
    using assms(2) fn by (simp add: string_columns_are_text_def)
  moreover have "list_all text_or_null (last_name a)"
    using assms(2) ln by (simp add: string_columns_are_text_def)
  moreover have "list_all text_or_null (city a)"
    using assms(2) ci by (simp add: string_columns_are_text_def)
  ultimately show ?thesis
    using getitem_length [OF assms(1) fn] getitem_length [OF assms(1) ln]
      getitem_length [OF assms(1) ci] by simp
qed

text \<open>
  Completion. For two well-formed datasets that have the four compared columns and whose
  first_name, last_name and city values are all text or missing, the script completes:
  missing values, wherever they stand, do not end the run.
\<close>

theorem pipeline_completes:
  assumes "wf_frame d1" and "wf_frame d2"
    and "{''first_name'', ''last_name'', ''birthdate'', ''city''} \<subseteq> set (columns d1)"
    and "{''first_name'', ''last_name'', ''birthdate'', ''city''} \<subseteq> set (columns d2)"
    and "string_columns_are_text d1" and "string_columns_are_text d2"
  shows "\<exists>out. pipeline jw parse (Some d1) (Some d2) = Inr out"
proof -
  let ?df1 = "preprocess parse d1" and ?df2 = "preprocess parse d2"
  obtain a where a: "select_compared ?df1 = Inr a"
    using select_compared_present [of ?df1] assms(3) by (auto simp: columns_preprocess)
  obtain b where b: "select_compared ?df2 = Inr b"
    using select_compared_present [of ?df2] assms(4) by (auto simp: columns_preprocess)
  note wa = select_compared_wf [OF assms(1,5) a]
  note wb = select_compared_wf [OF assms(2,6) b]
  have "\<exists>f. pair_features jw a b p = Inr f" if "p \<in> set (full_index ?df1 ?df2)" for p
  proof -
    have p: "fst p < nrows d1" "snd p < nrows d2"
      using that by (auto simp: set_full_index nrows_preprocess)
    obtain c1 where c1: "string_feature jw (first_name a) (first_name b) p = Inr c1"
      using string_feature_total [of "first_name a" "first_name b" p jw] wa wb p by auto
    obtain c2 where c2: "string_feature jw (last_name a) (last_name b) p = Inr c2"
      using string_feature_total [of "last_name a" "last_name b" p jw] wa wb p by auto
    obtain c4 where c4: "string_feature jw (city a) (city b) p = Inr c4"
      using string_feature_total [of "city a" "city b" p jw] wa wb p by auto
    have c3: "exact_feature (birthdate a) (birthdate b) p
        = Inr (compare_exact (birthdate a ! fst p) (birthdate b ! snd p))"
      using wa wb p by (simp add: exact_feature_eq_Inr)
    show ?thesis
      by (simp add: pair_features_def c1 c2 c3 c4)
  qed
  then obtain fs where "mapE (pair_features jw a b) (full_index ?df1 ?df2) = Inr fs"
    using mapE_total [of "full_index ?df1 ?df2" "pair_features jw a b"] by blast
  then have "compute jw (full_index ?df1 ?df2) ?df1 ?df2 = Inr fs"
    by (simp add: compute_def a b)
  then show ?thesis
    by (simp add: pipeline_loaded)
qed

theorem pipeline_completes_witness:
  "wf_frame example_df1 \<and> wf_frame example_df2
   \<and> {''first_name'', ''last_name'', ''birthdate'', ''city''} \<subseteq> set (columns example_df1)
   \<and> {''first_name'', ''last_name'', ''birthdate'', ''city''} \<subseteq> set (columns example_df2)
   \<and> string_columns_are_text example_df1 \<and> string_columns_are_text example_df2
   \<and> (\<exists>out. pipeline prefix_similarity example_parse (Some example_df1) (Some example_df2)
               = Inr out)"
proof -
  have w1: "wf_frame example_df1" and w2: "wf_frame example_df2"
    by (simp_all add: wf_frame_def columns_def example_df1_def example_df2_def)
  have c1: "{''first_name'', ''last_name'', ''birthdate'', ''city''} \<subseteq> set (columns example_df1)"
    and c2: "{''first_name'', ''last_name'', ''birthdate'', ''city''} \<subseteq> set (columns example_df2)"
    by (simp_all add: columns_def example_df1_def example_df2_def)
  have t1: "string_columns_are_text example_df1"
    by (auto simp: string_columns_are_text_def getitem_def example_df1_def text_or_null_def)
  have t2: "string_columns_are_text example_df2"
    by (auto simp: string_columns_are_text_def getitem_def example_df2_def text_or_null_def)
  show ?thesis
    using w1 w2 c1 c2 t1 t2
      pipeline_completes [OF w1 w2 c1 c2 t1 t2, of prefix_similarity example_parse]
    by blast
qed

section \<open>Identical values under the Jaro-Winkler metric\<close>
















end
